theory Spec2Isabelle
  imports Complex_Main "HOL-Library.Word" "HOL-Library.Sublist"
begin

unbundle bit_operations_syntax

section \<open>Creato AI Studio: the generation pipeline of the service modules\<close>

text \<open>
  The repository holds three near-identical copies of the service module:
  \<^item> \<^verbatim>\<open>src/services/geminiService.ts\<close>, the module \<^verbatim>\<open>App.tsx\<close> imports; its functions keep
    their names here (\<open>retry\<close>, \<open>generateContent\<close>, ...);
  \<^item> \<^verbatim>\<open>src/unnamed/part_000\<close>; its functions carry the suffix \<open>_part000\<close>;
  \<^item> the second document stored in \<^verbatim>\<open>src/services/dbService.ts\<close>; suffix \<open>_dbdoc\<close>.
  \<^verbatim>\<open>createWavHeader\<close> is the same text in all three.
\<close>

subsection \<open>Bytes, \<^verbatim>\<open>DataView\<close> and \<^verbatim>\<open>Uint8Array\<close>\<close>

type_synonym byte = "8 word"

text \<open>The four bytes of a 32-bit value and the two bytes of a 16-bit value, most significant first.\<close>

definition be_bytes32 :: "32 word \<Rightarrow> byte list" where
  "be_bytes32 w = [ucast (drop_bit 24 w), ucast (drop_bit 16 w), ucast (drop_bit 8 w), ucast w]"

definition be_bytes16 :: "16 word \<Rightarrow> byte list" where
  "be_bytes16 w = [ucast (drop_bit 8 w), ucast w]"

text \<open>
  Overwriting \<open>bs\<close> into \<open>buf\<close> from index \<open>off\<close> on. Every write of the program lies inside
  its buffer (JavaScript raises \<^verbatim>\<open>RangeError\<close> otherwise), so no error branch is modelled.
\<close>

definition write_bytes :: "byte list \<Rightarrow> nat \<Rightarrow> byte list \<Rightarrow> byte list" where
  "write_bytes buf off bs = take off buf @ bs @ drop (off + length bs) buf"

text \<open>
  \<^verbatim>\<open>DataView.prototype.setUint32(byteOffset, value, littleEndian)\<close>: the value is reduced
  modulo \<open>2 ^ 32\<close> (\<^verbatim>\<open>ToUint32\<close>, here \<open>word_of_int\<close>) and stored in the requested byte order.
  Numbers are integers in this model (\<open>int\<close>).
\<close>

definition setUint32 :: "nat \<Rightarrow> int \<Rightarrow> bool \<Rightarrow> byte list \<Rightarrow> byte list" where
  "setUint32 byteOffset v littleEndian buf =
     (let bs = be_bytes32 (word_of_int v)
      in write_bytes buf byteOffset (if littleEndian then rev bs else bs))"

definition setUint16 :: "nat \<Rightarrow> int \<Rightarrow> bool \<Rightarrow> byte list \<Rightarrow> byte list" where
  "setUint16 byteOffset v littleEndian buf =
     (let bs = be_bytes16 (word_of_int v)
      in write_bytes buf byteOffset (if littleEndian then rev bs else bs))"

subsection \<open>\<^verbatim>\<open>createWavHeader\<close>\<close>

text \<open>
  \<^verbatim>\<open>
  function createWavHeader(dataLength: number, sampleRate: number): Uint8Array {
    const header = new ArrayBuffer(44);
    const view = new DataView(header);
    view.setUint32(0, 0x52494646, false);
    view.setUint32(4, 36 + dataLength, true);
    view.setUint32(8, 0x57415645, false);
    view.setUint32(12, 0x666d7420, false);
    view.setUint16(16, 16, true);
    view.setUint16(20, 1, true);
    view.setUint16(22, 1, true);
    view.setUint32(24, sampleRate, true);
    view.setUint32(28, sampleRate * 2, true);
    view.setUint16(32, 2, true);
    view.setUint16(34, 16, true);
    view.setUint32(36, 0x64617461, false);
    view.setUint32(40, dataLength, true);
    return new Uint8Array(header);
  }
  \<close>
  The thirteen writes are composed in the order of the source (the first write is the innermost).
\<close>

definition createWavHeader :: "nat \<Rightarrow> int \<Rightarrow> byte list" where
  "createWavHeader dataLength sampleRate =
     (setUint32 40 (int dataLength) True \<circ>
      setUint32 36 0x64617461 False \<circ>
      setUint16 34 16 True \<circ>
      setUint16 32 2 True \<circ>
      setUint32 28 (sampleRate * 2) True \<circ>
      setUint32 24 sampleRate True \<circ>
      setUint16 22 1 True \<circ>
      setUint16 20 1 True \<circ>
      setUint16 16 16 True \<circ>
      setUint32 12 0x666d7420 False \<circ>
      setUint32 8 0x57415645 False \<circ>
      setUint32 4 (36 + int dataLength) True \<circ>
      setUint32 0 0x52494646 False) (replicate 44 0)"

text \<open>
  The container is assembled in \<^verbatim>\<open>generateStudioAudio\<close>:
  \<^verbatim>\<open>
  const wavHeader = createWavHeader(pcmData.length, 24000);
  const combined = new Uint8Array(wavHeader.length + pcmData.length);
  combined.set(wavHeader);
  combined.set(pcmData, wavHeader.length);
  \<close>
  \<open>wavContainer\<close> is these four lines with the literal 24000 as a parameter.
\<close>

definition wavContainer :: "byte list \<Rightarrow> int \<Rightarrow> byte list" where
  "wavContainer pcmData sampleRate =
     (let wavHeader = createWavHeader (length pcmData) sampleRate;
          combined = replicate (length wavHeader + length pcmData) 0;
          combined = write_bytes combined 0 wavHeader;
          combined = write_bytes combined (length wavHeader) pcmData
      in combined)"

text \<open>Readers of the header fields: unsigned little-endian numbers and ASCII markers.\<close>

definition le32 :: "byte list \<Rightarrow> nat" where
  "le32 bs = unat (bs ! 0) + 256 * unat (bs ! 1) + 65536 * unat (bs ! 2) + 16777216 * unat (bs ! 3)"

definition le16 :: "byte list \<Rightarrow> nat" where
  "le16 bs = unat (bs ! 0) + 256 * unat (bs ! 1)"

definition field :: "nat \<Rightarrow> nat \<Rightarrow> byte list \<Rightarrow> byte list" where
  "field off n bs = take n (drop off bs)"

definition ascii :: "string \<Rightarrow> byte list" where
  "ascii s = map (\<lambda>c. of_nat (of_char c)) s"

subsection \<open>Thrown values and strings\<close>

text \<open>
  What the \<^verbatim>\<open>catch\<close> blocks read of a thrown value: its \<^verbatim>\<open>message\<close> and \<^verbatim>\<open>status\<close> properties
  (\<open>None\<close> when absent) and the text \<^verbatim>\<open>JSON.stringify\<close> makes of it (\<open>None\<close> when that is
  \<^verbatim>\<open>undefined\<close>, as for a thrown \<^verbatim>\<open>undefined\<close>).
\<close>

record js_error =
  message :: "string option"
  status :: "string option"
  json :: "string option"

text \<open>\<^verbatim>\<open>new Error(msg)\<close>: the message is not enumerable, so \<^verbatim>\<open>JSON.stringify\<close> gives \<^verbatim>\<open>{}\<close>.\<close>

definition new_Error :: "string \<Rightarrow> js_error" where
  "new_Error msg = \<lparr>message = Some msg, status = None, json = Some ''{}''\<rparr>"

text \<open>
  The \<^verbatim>\<open>TypeError\<close> of calling \<^verbatim>\<open>.includes\<close> on \<^verbatim>\<open>undefined\<close>; the wording of its message
  belongs to the engine.
\<close>

definition typeError :: js_error where
  "typeError = new_Error ''Cannot read properties of undefined''"

text \<open>\<^verbatim>\<open>String.prototype.includes\<close>.\<close>

definition str_includes :: "string \<Rightarrow> string \<Rightarrow> bool" where
  "str_includes s p = sublist p s"

text \<open>A JavaScript string in a condition: the empty string is falsy.\<close>

definition truthy_str :: "string option \<Rightarrow> bool" where
  "truthy_str s = (case s of None \<Rightarrow> False | Some t \<Rightarrow> t \<noteq> [])"

text \<open>\<^verbatim>\<open>!s\<close>.\<close>

definition falsy_str :: "string option \<Rightarrow> bool" where
  "falsy_str s = (case s of None \<Rightarrow> True | Some t \<Rightarrow> t = [])"

text \<open>Decimal rendering of an integer, as a template literal prints an integral number.\<close>

fun show_nat :: "nat \<Rightarrow> string" where
  "show_nat n =
     (if n < 10 then [char_of (48 + n)] else show_nat (n div 10) @ [char_of (48 + n mod 10)])"

declare show_nat.simps [simp del]

definition show_int :: "int \<Rightarrow> string" where
  "show_int k = (if k < 0 then CHR ''-'' # show_nat (nat (- k)) else show_nat (nat k))"

subsection \<open>\<^verbatim>\<open>retry\<close>\<close>

text \<open>
  The operation \<^verbatim>\<open>fn\<close> is given by its outcomes: \<open>fn i\<close> is what its invocation number \<open>i\<close>
  (counted from 0) resolves or rejects with. The wrapper returns its own outcome and the list
  of what it did, in order: \<open>Attempt i\<close> for invocation \<open>i\<close> of \<^verbatim>\<open>fn\<close>, \<open>Warn k w\<close> for the
  \<^verbatim>\<open>console.warn\<close> of failed attempt \<open>k\<close> with wait \<open>w\<close>, \<open>Sleep w\<close> for the timer of \<open>w\<close>
  milliseconds it awaits. \<^verbatim>\<open>retries\<close> is a count (every call site passes 1, 2 or the default 3).
\<close>

datatype retry_event = Attempt nat | Warn nat int | Sleep int

type_synonym 'a outcome = "(js_error + 'a) \<times> retry_event list"

definition after :: "retry_event list \<Rightarrow> 'a outcome \<Rightarrow> 'a outcome" where
  "after evs r = (fst r, evs @ snd r)"

text \<open>
  \<^verbatim>\<open>src/services/geminiService.ts\<close>:
  \<^verbatim>\<open>
  async function retry<T>(fn: () => Promise<T>, retries = 3, initialDelay = 3000): Promise<T> {
    let currentDelay = initialDelay;
    for (let i = 0; i <= retries; i++) {
      try {
        return await fn();
      } catch (error: any) {
        const errorMsg = error?.message || JSON.stringify(error);
        const isRateLimit = errorMsg.includes('429') || errorMsg.includes('RESOURCE_EXHAUSTED');
        const isAuthError = errorMsg.includes('403') || errorMsg.includes('API_KEY_INVALID')
                            || errorMsg.includes('not found');
        if (isAuthError) {
          throw new Error("API Key issue: Please check your Netlify Environment Variables. Make sure API_KEY is set.");
        }
        if (i === retries) throw error;
        const waitTime = isRateLimit ? currentDelay * 3 : currentDelay;
        console.warn(...);
        await new Promise(resolve => setTimeout(resolve, waitTime));
        currentDelay *= 2;
      }
    }
    throw new Error("Production process timed out after retries.");
  }
  \<close>
\<close>

definition errorMsg_of :: "js_error \<Rightarrow> string option" where
  "errorMsg_of error = (if truthy_str (message error) then message error else json error)"

definition isRateLimit :: "string \<Rightarrow> bool" where
  "isRateLimit errorMsg \<longleftrightarrow>
     str_includes errorMsg ''429'' \<or> str_includes errorMsg ''RESOURCE_EXHAUSTED''"

definition isAuthError :: "string \<Rightarrow> bool" where
  "isAuthError errorMsg \<longleftrightarrow>
     str_includes errorMsg ''403'' \<or> str_includes errorMsg ''API_KEY_INVALID''
     \<or> str_includes errorMsg ''not found''"

definition apiKeyIssue :: js_error where
  "apiKeyIssue = new_Error
     ''API Key issue: Please check your Netlify Environment Variables. Make sure API_KEY is set.''"

function retry_loop :: "(nat \<Rightarrow> js_error + 'a) \<Rightarrow> nat \<Rightarrow> nat \<Rightarrow> int \<Rightarrow> 'a outcome" where
  "retry_loop fn retries i currentDelay =
     (if i \<le> retries then
        (case fn i of
           Inr v \<Rightarrow> (Inr v, [Attempt i])
         | Inl error \<Rightarrow>
             (case errorMsg_of error of
                None \<Rightarrow> (Inl typeError, [Attempt i])
              | Some errorMsg \<Rightarrow>
                  if isAuthError errorMsg then (Inl apiKeyIssue, [Attempt i])
                  else if i = retries then (Inl error, [Attempt i])
                  else
                    (let waitTime = (if isRateLimit errorMsg then currentDelay * 3 else currentDelay)
                     in after [Attempt i, Warn (i + 1) waitTime, Sleep waitTime]
                          (retry_loop fn retries (i + 1) (currentDelay * 2)))))
      else (Inl (new_Error ''Production process timed out after retries.''), []))"
  by pat_completeness auto
termination
  by (relation "measure (\<lambda>(fn, retries, i, currentDelay). Suc retries - i)") auto

declare retry_loop.simps [simp del]

definition retry :: "(nat \<Rightarrow> js_error + 'a) \<Rightarrow> nat \<Rightarrow> int \<Rightarrow> 'a outcome" where
  "retry fn retries initialDelay = retry_loop fn retries 0 initialDelay"

text \<open>
  \<^verbatim>\<open>src/unnamed/part_000\<close>, and word for word the second document of
  \<^verbatim>\<open>src/services/dbService.ts\<close>:
  \<^verbatim>\<open>
  async function retry<T>(fn: () => Promise<T>, retries = 3, initialDelay = 2000): Promise<T> {
    let currentDelay = initialDelay;
    for (let i = 0; i <= retries; i++) {
      try {
        return await fn();
      } catch (error: any) {
        const isRateLimit = error?.message?.includes('429') || error?.status === 'RESOURCE_EXHAUSTED'
                            || JSON.stringify(error).includes('429');
        if (i === retries) throw error;
        const waitTime = isRateLimit ? currentDelay * 2 : currentDelay;
        console.warn(...);
        await new Promise(resolve => setTimeout(resolve, waitTime));
        currentDelay *= 2;
      }
    }
    throw new Error("Retry failed after maximum attempts");
  }
  \<close>
  The third disjunct of \<^verbatim>\<open>isRateLimit\<close> is evaluated only when the first two are false, and
  raises \<^verbatim>\<open>TypeError\<close> when \<^verbatim>\<open>JSON.stringify\<close> gives \<^verbatim>\<open>undefined\<close>.
\<close>

definition isRateLimit_part000 :: "js_error \<Rightarrow> js_error + bool" where
  "isRateLimit_part000 error =
     (if (case message error of None \<Rightarrow> False | Some m \<Rightarrow> str_includes m ''429'') then Inr True
      else if status error = Some ''RESOURCE_EXHAUSTED'' then Inr True
      else (case json error of None \<Rightarrow> Inl typeError | Some j \<Rightarrow> Inr (str_includes j ''429'')))"

function retry_loop_part000 ::
  "(nat \<Rightarrow> js_error + 'a) \<Rightarrow> nat \<Rightarrow> nat \<Rightarrow> int \<Rightarrow> 'a outcome" where
  "retry_loop_part000 fn retries i currentDelay =
     (if i \<le> retries then
        (case fn i of
           Inr v \<Rightarrow> (Inr v, [Attempt i])
         | Inl error \<Rightarrow>
             (case isRateLimit_part000 error of
                Inl thrown \<Rightarrow> (Inl thrown, [Attempt i])
              | Inr rateLimited \<Rightarrow>
                  if i = retries then (Inl error, [Attempt i])
                  else
                    (let waitTime = (if rateLimited then currentDelay * 2 else currentDelay)
                     in after [Attempt i, Warn (i + 1) waitTime, Sleep waitTime]
                          (retry_loop_part000 fn retries (i + 1) (currentDelay * 2)))))
      else (Inl (new_Error ''Retry failed after maximum attempts''), []))"
  by pat_completeness auto
termination
  by (relation "measure (\<lambda>(fn, retries, i, currentDelay). Suc retries - i)") auto

declare retry_loop_part000.simps [simp del]

definition retry_part000 :: "(nat \<Rightarrow> js_error + 'a) \<Rightarrow> nat \<Rightarrow> int \<Rightarrow> 'a outcome" where
  "retry_part000 fn retries initialDelay = retry_loop_part000 fn retries 0 initialDelay"

subsection \<open>Types of \<^verbatim>\<open>types.ts\<close> and the table of \<^verbatim>\<open>constants.ts\<close>\<close>

datatype Language = ENGLISH | HINDI

datatype Gender = MALE | FEMALE

datatype Tone = CALM | ENERGETIC | EMOTIONAL | AUTHORITATIVE

datatype Speed = SLOW | NORMAL | FAST

datatype ContentType = REEL | LONG | PODCAST | NEWS

datatype AspectRatio = VERTICAL | HORIZONTAL

datatype ScriptCategory =
  TECH | EDUCATION | AI | SONG | MOVIE | SHOPPING | ADVERTISING | TRAVEL | GAMING | MOTIVATION | HEALTH

text \<open>The string values of the enums, as template literals print them.\<close>

fun tone_str :: "Tone \<Rightarrow> string" where
  "tone_str CALM = ''Calm''"
| "tone_str ENERGETIC = ''Energetic''"
| "tone_str EMOTIONAL = ''Emotional''"
| "tone_str AUTHORITATIVE = ''Authoritative''"

fun speed_str :: "Speed \<Rightarrow> string" where
  "speed_str SLOW = ''Slow''"
| "speed_str NORMAL = ''Normal''"
| "speed_str FAST = ''Fast''"

fun contentType_str :: "ContentType \<Rightarrow> string" where
  "contentType_str REEL = ''Shorts/Reels''"
| "contentType_str LONG = ''Long Video''"
| "contentType_str PODCAST = ''Podcast''"
| "contentType_str NEWS = ''News Bulletin''"

fun aspectRatio_str :: "AspectRatio \<Rightarrow> string" where
  "aspectRatio_str VERTICAL = ''9:16''"
| "aspectRatio_str HORIZONTAL = ''16:9''"

fun scriptCategory_str :: "ScriptCategory \<Rightarrow> string" where
  "scriptCategory_str TECH = ''Technology''"
| "scriptCategory_str EDUCATION = ''Education''"
| "scriptCategory_str AI = ''Artificial Intelligence''"
| "scriptCategory_str SONG = ''Song/Music''"
| "scriptCategory_str MOVIE = ''Movie/Cinema''"
| "scriptCategory_str SHOPPING = ''Shopping/E-commerce''"
| "scriptCategory_str ADVERTISING = ''Advertising/Marketing''"
| "scriptCategory_str TRAVEL = ''Travel/Vlog''"
| "scriptCategory_str GAMING = ''Gaming''"
| "scriptCategory_str MOTIVATION = ''Motivation''"
| "scriptCategory_str HEALTH = ''Health & Fitness''"

text \<open>
  A JavaScript number where the program computes with fractions (the volume): a real, the two
  infinities or \<^verbatim>\<open>NaN\<close>. Durations, delays and percentages are integers (\<open>int\<close>).
\<close>

datatype jsnum = NaN | NegInf | Fin real | PosInf

record StudioConfig =
  language :: Language
  primaryGender :: Gender
  voiceId :: string
  tone :: Tone
  speed :: Speed
  volume :: jsnum
  contentType :: ContentType
  scriptCategory :: ScriptCategory
  durationMinutes :: int
  durationSeconds :: int
  aspectRatio :: AspectRatio

record VoiceOption =
  voice_id :: string
  voice_name :: string
  voice_gender :: Gender
  geminiVoice :: string

definition VOICES :: "VoiceOption list" where
  "VOICES =
     [\<lparr>voice_id = ''v1'', voice_name = ''James'', voice_gender = MALE, geminiVoice = ''Puck''\<rparr>,
      \<lparr>voice_id = ''v2'', voice_name = ''David'', voice_gender = MALE, geminiVoice = ''Charon''\<rparr>,
      \<lparr>voice_id = ''v3'', voice_name = ''Robert'', voice_gender = MALE, geminiVoice = ''Fenrir''\<rparr>,
      \<lparr>voice_id = ''v4'', voice_name = ''Emma'', voice_gender = FEMALE, geminiVoice = ''Kore''\<rparr>,
      \<lparr>voice_id = ''v5'', voice_name = ''Sophia'', voice_gender = FEMALE, geminiVoice = ''Zephyr''\<rparr>,
      \<lparr>voice_id = ''v6'', voice_name = ''Olivia'', voice_gender = FEMALE, geminiVoice = ''Aoede''\<rparr>]"

text \<open>
  The object \<^verbatim>\<open>JSON.parse\<close> makes of the text response: each property is \<open>None\<close> when absent.
  The response is taken to be a JSON object whose properties, where present, have the types of
  the request schema.
\<close>

record ContentPackage =
  title :: "string option"
  script :: "string option"
  description :: "string option"
  caption :: "string option"
  hashtags :: "string list option"
  bestTime :: "string option"
  imagePrompts :: "string list option"
  thumbnailPrompt :: "string option"

definition empty_object :: ContentPackage where
  "empty_object =
     \<lparr>title = None, script = None, description = None, caption = None, hashtags = None,
      bestTime = None, imagePrompts = None, thumbnailPrompt = None\<rparr>"

record Blob =
  blob_bytes :: "byte list"
  blob_type :: string

record Audio =
  blob :: Blob
  url :: string

record StudioResult =
  data :: ContentPackage
  result_contentType :: ContentType
  result_aspectRatio :: AspectRatio
  result_images :: "string list"
  thumbnail :: string
  audioBlob :: Blob
  audioUrl :: string

subsection \<open>The remote service and the platform\<close>

text \<open>
  What \<^verbatim>\<open>GenerateContentResponse\<close> the program reads: \<^verbatim>\<open>response.text\<close>, and of
  \<^verbatim>\<open>response.candidates?.[0]?.content?.parts\<close> the \<^verbatim>\<open>inlineData.data\<close> of each part
  (\<open>None\<close> for a part without \<^verbatim>\<open>inlineData\<close>; the empty list when there are no parts).
\<close>

record response =
  resp_text :: "string option"
  resp_parts :: "string option list"

datatype slot = ImageNo nat | Thumbnail

datatype speechConfig = VoiceConfig string | MultiSpeakerVoiceConfig "(string \<times> string) list"

record audioParams =
  tts_text :: string
  speech :: speechConfig

text \<open>
  Everything outside the program is a parameter. The three remote operations
  (\<^verbatim>\<open>ai.models.generateContent\<close> for text, for an image and for speech) are given by their
  outcomes: the last argument is the number of the attempt within one \<^verbatim>\<open>retry\<close>, and an image
  call is named by the slot it fills (the model's own index; the source has none). The system
  instruction and the response schema of the text request repeat the same configuration fields
  and are not carried. \<^verbatim>\<open>json_parse\<close>, \<^verbatim>\<open>atob\<close>, \<^verbatim>\<open>URL.createObjectURL\<close>, the text of
  \<^verbatim>\<open>Math.random()\<close> drawn for a slot, and \<open>fl\<close>, the rounding of a real product to a
  double, are the platform's.
\<close>

record world =
  text_op :: "string \<Rightarrow> nat \<Rightarrow> js_error + response"
  image_op :: "slot \<Rightarrow> string \<Rightarrow> nat \<Rightarrow> js_error + response"
  audio_op :: "audioParams \<Rightarrow> nat \<Rightarrow> js_error + response"
  json_parse :: "string \<Rightarrow> js_error + ContentPackage"
  atob :: "string \<Rightarrow> js_error + byte list"
  createObjectURL :: "Blob \<Rightarrow> string"
  math_random :: "slot \<Rightarrow> string"
  fl :: "real \<Rightarrow> jsnum"

text \<open>
  The trace of a run: progress callbacks, the pacing \<^verbatim>\<open>sleep\<close>s of the orchestrator, and what
  each \<^verbatim>\<open>retry\<close> did, labelled with the stage that called it. (\<^verbatim>\<open>console.error\<close> is not recorded.)
\<close>

datatype stage = TextGeneration | ImageGeneration slot | AudioGeneration

datatype event = Progress int | Pace int | Net stage retry_event

definition sleep :: "int \<Rightarrow> event list" where
  "sleep ms = [Pace ms]"

text \<open>\<^verbatim>\<open>if (onProgress) onProgress(p)\<close>: \<open>onProgress\<close> tells whether a callback was supplied.\<close>

definition report :: "bool \<Rightarrow> int \<Rightarrow> event list" where
  "report onProgress p = (if onProgress then [Progress p] else [])"

text \<open>\<^verbatim>\<open>s || d\<close> for a string property \<open>s\<close>.\<close>

definition or_else :: "string option \<Rightarrow> string \<Rightarrow> string" where
  "or_else s d = (case s of None \<Rightarrow> d | Some t \<Rightarrow> if t = [] then d else t)"

text \<open>A property printed in a template literal.\<close>

definition printed :: "string option \<Rightarrow> string" where
  "printed s = (case s of None \<Rightarrow> ''undefined'' | Some t \<Rightarrow> t)"

text \<open>\<^verbatim>\<open>JSON.parse(response.text || '{}')\<close>; the literal \<^verbatim>\<open>{}\<close> parses to the empty object.\<close>

definition parse_response :: "world \<Rightarrow> response \<Rightarrow> js_error + ContentPackage" where
  "parse_response w response =
     (let txt = or_else (resp_text response) ''{}''
      in if txt = ''{}'' then Inr empty_object else json_parse w txt)"

text \<open>\<^verbatim>\<open>err.message?.includes('429')\<close> and \<^verbatim>\<open>err?.message?.includes('429')\<close>.\<close>

definition message_includes_429 :: "js_error \<Rightarrow> bool" where
  "message_includes_429 err = (case message err of None \<Rightarrow> False | Some m \<Rightarrow> str_includes m ''429'')"

text \<open>The size part of a placeholder address.\<close>

definition dims :: "AspectRatio \<Rightarrow> string" where
  "dims a = (if a = VERTICAL then ''720/1280'' else ''1280/720'')"

subsection \<open>The gain stage (\<^verbatim>\<open>src/unnamed/part_000\<close> only)\<close>

text \<open>
  \<^verbatim>\<open>
  const volumeFactor = config.volume || 1.0;
  if (volumeFactor !== 1.0) {
    const dataInt16 = new Int16Array(pcmData.buffer);
    for (let i = 0; i < dataInt16.length; i++) {
      let scaled = dataInt16[i] * volumeFactor;
      dataInt16[i] = Math.max(-32768, Math.min(32767, scaled));
    }
  }
  \<close>
  \<^verbatim>\<open>NaN\<close> and zero are the falsy numbers. The product of two finite numbers is the real product
  rounded by \<open>fl\<close>; \<^verbatim>\<open>Math.min\<close> and \<^verbatim>\<open>Math.max\<close> give \<^verbatim>\<open>NaN\<close> when an argument is \<^verbatim>\<open>NaN\<close>; a
  store into an \<^verbatim>\<open>Int16Array\<close> applies \<^verbatim>\<open>ToInt16\<close>: 0 for \<^verbatim>\<open>NaN\<close> and the infinities, else the
  number truncated towards zero, modulo \<open>2 ^ 16\<close>. The view reads and writes the bytes in
  the platform's order, little-endian here, and \<^verbatim>\<open>new Int16Array(buffer)\<close> raises
  \<^verbatim>\<open>RangeError\<close> on a buffer of odd length.
\<close>

definition truthy_num :: "jsnum \<Rightarrow> bool" where
  "truthy_num x = (case x of NaN \<Rightarrow> False | Fin r \<Rightarrow> r \<noteq> 0 | _ \<Rightarrow> True)"

definition js_mul :: "(real \<Rightarrow> jsnum) \<Rightarrow> jsnum \<Rightarrow> jsnum \<Rightarrow> jsnum" where
  "js_mul rnd x y =
     (case (x, y) of
        (NaN, _) \<Rightarrow> NaN
      | (_, NaN) \<Rightarrow> NaN
      | (Fin a, Fin b) \<Rightarrow> rnd (a * b)
      | (Fin a, PosInf) \<Rightarrow> if a = 0 then NaN else if 0 < a then PosInf else NegInf
      | (Fin a, NegInf) \<Rightarrow> if a = 0 then NaN else if 0 < a then NegInf else PosInf
      | (PosInf, Fin b) \<Rightarrow> if b = 0 then NaN else if 0 < b then PosInf else NegInf
      | (NegInf, Fin b) \<Rightarrow> if b = 0 then NaN else if 0 < b then NegInf else PosInf
      | (PosInf, PosInf) \<Rightarrow> PosInf
      | (NegInf, NegInf) \<Rightarrow> PosInf
      | (PosInf, NegInf) \<Rightarrow> NegInf
      | (NegInf, PosInf) \<Rightarrow> NegInf)"

definition Math_min :: "jsnum \<Rightarrow> jsnum \<Rightarrow> jsnum" where
  "Math_min x y =
     (case (x, y) of
        (NaN, _) \<Rightarrow> NaN
      | (_, NaN) \<Rightarrow> NaN
      | (NegInf, _) \<Rightarrow> NegInf
      | (_, NegInf) \<Rightarrow> NegInf
      | (PosInf, _) \<Rightarrow> y
      | (_, PosInf) \<Rightarrow> x
      | (Fin a, Fin b) \<Rightarrow> Fin (min a b))"

definition Math_max :: "jsnum \<Rightarrow> jsnum \<Rightarrow> jsnum" where
  "Math_max x y =
     (case (x, y) of
        (NaN, _) \<Rightarrow> NaN
      | (_, NaN) \<Rightarrow> NaN
      | (PosInf, _) \<Rightarrow> PosInf
      | (_, PosInf) \<Rightarrow> PosInf
      | (NegInf, _) \<Rightarrow> y
      | (_, NegInf) \<Rightarrow> x
      | (Fin a, Fin b) \<Rightarrow> Fin (max a b))"

definition js_trunc :: "real \<Rightarrow> int" where
  "js_trunc r = (if 0 \<le> r then \<lfloor>r\<rfloor> else \<lceil>r\<rceil>)"

definition ToInt16 :: "jsnum \<Rightarrow> 16 word" where
  "ToInt16 x = (case x of Fin r \<Rightarrow> word_of_int (js_trunc r) | _ \<Rightarrow> 0)"

text \<open>One turn of the loop: the new value of \<^verbatim>\<open>dataInt16[i]\<close> from the old one.\<close>

definition scale_sample :: "(real \<Rightarrow> jsnum) \<Rightarrow> jsnum \<Rightarrow> 16 word \<Rightarrow> 16 word" where
  "scale_sample rnd volumeFactor sample =
     (let scaled = js_mul rnd (Fin (real_of_int (sint sample))) volumeFactor
      in ToInt16 (Math_max (Fin (- 32768)) (Math_min (Fin 32767) scaled)))"

fun int16_view :: "byte list \<Rightarrow> 16 word list" where
  "int16_view (lo # hi # rest) = (push_bit 8 (ucast hi) OR ucast lo) # int16_view rest"
| "int16_view _ = []"

definition int16_bytes :: "16 word list \<Rightarrow> byte list" where
  "int16_bytes samples = concat (map (\<lambda>s. [ucast s, ucast (drop_bit 8 s)]) samples)"

definition rangeError :: js_error where
  "rangeError = new_Error ''byte length of Int16Array should be a multiple of 2''"

definition apply_volume :: "world \<Rightarrow> jsnum \<Rightarrow> byte list \<Rightarrow> js_error + byte list" where
  "apply_volume w vol pcmData =
     (let volumeFactor = (if truthy_num vol then vol else Fin 1)
      in if volumeFactor \<noteq> Fin 1 then
           (if odd (length pcmData) then Inl rangeError
            else Inr (int16_bytes (map (scale_sample (fl w) volumeFactor) (int16_view pcmData))))
         else Inr pcmData)"

subsection \<open>\<^verbatim>\<open>generateStudioAudio\<close>\<close>

text \<open>
  The body of the \<^verbatim>\<open>try\<close> block gives \<open>Inl\<close> what it throws, \<open>Inr (Some a)\<close> what it returns,
  and \<open>Inr None\<close> when it runs to its end without returning (\<^verbatim>\<open>if (base64Audio)\<close> is false
  for a missing or empty payload). The \<^verbatim>\<open>catch\<close> block logs and
  falls through to \<^verbatim>\<open>return { blob: new Blob(), url: '' }\<close>. \<^verbatim>\<open>atob\<close> yields the decoded
  bytes (the source copies the character codes of its binary string into \<^verbatim>\<open>pcmData\<close> one by
  one).
\<close>

definition selectedVoice :: "StudioConfig \<Rightarrow> VoiceOption" where
  "selectedVoice config =
     (case find (\<lambda>v. voice_id v = voiceId config) VOICES of Some v \<Rightarrow> v | None \<Rightarrow> VOICES ! 0)"

definition base64Audio :: "response \<Rightarrow> string option" where
  "base64Audio response = (case resp_parts response of [] \<Rightarrow> None | part # _ \<Rightarrow> part)"

definition wav_blob :: "world \<Rightarrow> byte list \<Rightarrow> Audio" where
  "wav_blob w pcmData =
     (let b = \<lparr>blob_bytes = wavContainer pcmData 24000, blob_type = ''audio/wav''\<rparr>
      in \<lparr>blob = b, url = createObjectURL w b\<rparr>)"

definition empty_audio :: Audio where
  "empty_audio = \<lparr>blob = \<lparr>blob_bytes = [], blob_type = []\<rparr>, url = []\<rparr>"

definition falling_back :: "js_error + Audio option \<Rightarrow> js_error + Audio" where
  "falling_back tried =
     (case tried of Inl err \<Rightarrow> Inr empty_audio | Inr None \<Rightarrow> Inr empty_audio | Inr (Some a) \<Rightarrow> Inr a)"

text \<open>\<^verbatim>\<open>src/services/geminiService.ts\<close>: \<^verbatim>\<open>retry(..., 1, 5000)\<close>, no gain stage.\<close>

definition audio_try :: "world \<Rightarrow> js_error + response \<Rightarrow> js_error + Audio option" where
  "audio_try w called =
     (case called of
        Inl err \<Rightarrow> Inl err
      | Inr response \<Rightarrow>
          (case base64Audio response of
             None \<Rightarrow> Inr None
           | Some b64 \<Rightarrow>
               if b64 = [] then Inr None
               else
                 (case atob w b64 of
                    Inl err \<Rightarrow> Inl err
                  | Inr pcmData \<Rightarrow> Inr (Some (wav_blob w pcmData)))))"

definition audioRequest :: "string \<Rightarrow> StudioConfig \<Rightarrow> audioParams" where
  "audioRequest scriptText config =
     \<lparr>tts_text = ''Tone: '' @ tone_str (tone config) @ ''. Script: '' @ scriptText,
      speech = VoiceConfig (geminiVoice (selectedVoice config))\<rparr>"

definition generateStudioAudio ::
  "world \<Rightarrow> string \<Rightarrow> StudioConfig \<Rightarrow> (js_error + Audio) \<times> event list" where
  "generateStudioAudio w scriptText config =
     (let called = retry (audio_op w (audioRequest scriptText config)) 1 5000
      in (falling_back (audio_try w (fst called)), map (Net AudioGeneration) (snd called)))"

text \<open>
  \<^verbatim>\<open>src/unnamed/part_000\<close>: the default \<^verbatim>\<open>retry\<close> (3 retries, 2000 ms), two speakers for a
  podcast, and the gain stage between decoding and the container.
\<close>

definition audio_try_part000 ::
  "world \<Rightarrow> StudioConfig \<Rightarrow> js_error + response \<Rightarrow> js_error + Audio option" where
  "audio_try_part000 w config called =
     (case called of
        Inl err \<Rightarrow> Inl err
      | Inr response \<Rightarrow>
          (case base64Audio response of
             None \<Rightarrow> Inr None
           | Some b64 \<Rightarrow>
               if b64 = [] then Inr None
               else
                 (case atob w b64 of
                    Inl err \<Rightarrow> Inl err
                  | Inr pcmData \<Rightarrow>
                      (case apply_volume w (volume config) pcmData of
                         Inl err \<Rightarrow> Inl err
                       | Inr pcmData' \<Rightarrow> Inr (Some (wav_blob w pcmData'))))))"

definition audioRequest_part000 :: "string \<Rightarrow> StudioConfig \<Rightarrow> audioParams" where
  "audioRequest_part000 scriptText config =
     (let ttsText = ''Performance: '' @ tone_str (tone config) @ ''. Speed: ''
                    @ speed_str (speed config) @ ''. Duration target: ''
                    @ show_int (durationMinutes config) @ ''m ''
                    @ show_int (durationSeconds config) @ ''s. Script: '' @ scriptText
      in \<lparr>tts_text = ttsText,
          speech = (if contentType config = PODCAST
                    then MultiSpeakerVoiceConfig [(''Joe'', ''Puck''), (''Jane'', ''Kore'')]
                    else VoiceConfig (geminiVoice (selectedVoice config)))\<rparr>)"

definition generateStudioAudio_part000 ::
  "world \<Rightarrow> string \<Rightarrow> StudioConfig \<Rightarrow> (js_error + Audio) \<times> event list" where
  "generateStudioAudio_part000 w scriptText config =
     (let called = retry_part000 (audio_op w (audioRequest_part000 scriptText config)) 3 2000
      in (falling_back (audio_try_part000 w config (fst called)),
          map (Net AudioGeneration) (snd called)))"

text \<open>
  The second document of \<^verbatim>\<open>src/services/dbService.ts\<close>: the default \<^verbatim>\<open>retry\<close>, one voice, no
  gain stage; the \<^verbatim>\<open>try\<close> block is that of \<^verbatim>\<open>geminiService.ts\<close>.
\<close>

definition audioRequest_dbdoc :: "string \<Rightarrow> StudioConfig \<Rightarrow> audioParams" where
  "audioRequest_dbdoc scriptText config =
     (let ttsText = ''Performance: '' @ tone_str (tone config) @ ''. Speed: ''
                    @ speed_str (speed config) @ ''. Script: '' @ scriptText
      in \<lparr>tts_text = ttsText, speech = VoiceConfig (geminiVoice (selectedVoice config))\<rparr>)"

definition generateStudioAudio_dbdoc ::
  "world \<Rightarrow> string \<Rightarrow> StudioConfig \<Rightarrow> (js_error + Audio) \<times> event list" where
  "generateStudioAudio_dbdoc w scriptText config =
     (let called = retry_part000 (audio_op w (audioRequest_dbdoc scriptText config)) 3 2000
      in (falling_back (audio_try w (fst called)), map (Net AudioGeneration) (snd called)))"

subsection \<open>\<^verbatim>\<open>generateStudioImage\<close>\<close>

text \<open>
  \<^verbatim>\<open>
  const response = await retry(() => ai.models.generateContent({...}), 2, 4000);
  for (const part of response.candidates?.[0]?.content?.parts || []) {
    if (part.inlineData) return `data:image/png;base64,${part.inlineData.data}`;
  }
  throw new Error("Asset generation failed.");
  \<close>
  The three copies differ in the request text, the first delay and the final message.
\<close>

definition first_inlineData :: "response \<Rightarrow> string option" where
  "first_inlineData response = (case List.map_filter (\<lambda>p. p) (resp_parts response) of [] \<Rightarrow> None | d # _ \<Rightarrow> Some d)"

definition image_of :: "string \<Rightarrow> js_error + response \<Rightarrow> js_error + string" where
  "image_of failure called =
     (case called of
        Inl err \<Rightarrow> Inl err
      | Inr response \<Rightarrow>
          (case first_inlineData response of
             Some d \<Rightarrow> Inr (''data:image/png;base64,'' @ d)
           | None \<Rightarrow> Inl (new_Error failure)))"

definition generateStudioImage ::
  "world \<Rightarrow> slot \<Rightarrow> string \<Rightarrow> AspectRatio \<Rightarrow> (js_error + string) \<times> event list" where
  "generateStudioImage w sl prompt aspect =
     (let called = retry (image_op w sl
            (prompt @ ''. High quality, cinematic, ultra-realistic, '' @ aspectRatio_str aspect
             @ '' aspect ratio.'')) 2 4000
      in (image_of ''Asset generation failed.'' (fst called),
          map (Net (ImageGeneration sl)) (snd called)))"

definition generateStudioImage_part000 ::
  "world \<Rightarrow> slot \<Rightarrow> string \<Rightarrow> AspectRatio \<Rightarrow> (js_error + string) \<times> event list" where
  "generateStudioImage_part000 w sl prompt aspect =
     (let called = retry_part000 (image_op w sl
            (prompt @ ''. Optimized for '' @ aspectRatio_str aspect
             @ '' aspect ratio. High detail cinematic style.'')) 2 3000
      in (image_of ''No image data returned from API'' (fst called),
          map (Net (ImageGeneration sl)) (snd called)))"

definition generateStudioImage_dbdoc ::
  "world \<Rightarrow> slot \<Rightarrow> string \<Rightarrow> AspectRatio \<Rightarrow> (js_error + string) \<times> event list" where
  "generateStudioImage_dbdoc w sl prompt aspect =
     (let called = retry_part000 (image_op w sl
            (prompt @ ''. Cinematic, high detail, realistic, '' @ aspectRatio_str aspect
             @ '' aspect ratio.'')) 2 3000
      in (image_of ''No image data'' (fst called),
          map (Net (ImageGeneration sl)) (snd called)))"

subsection \<open>The target word count\<close>

text \<open>
  \<^verbatim>\<open>
  const totalSeconds = (config.durationMinutes * 60) + config.durationSeconds;
  let multiplier = 2.5;
  if (config.speed === Speed.SLOW) multiplier = 2.0;
  if (config.speed === Speed.FAST) multiplier = 3.0;
  const targetWordCount = Math.round(totalSeconds * multiplier);
  \<close>
  The same five lines in all three copies. \<^verbatim>\<open>Math.round\<close> rounds a half upwards, as \<open>round\<close>
  does; the products are halves of integers, which doubles hold exactly (for every duration a
  double counts exactly).
\<close>

definition totalSeconds :: "StudioConfig \<Rightarrow> int" where
  "totalSeconds config = (durationMinutes config * 60) + durationSeconds config"

definition multiplier :: "StudioConfig \<Rightarrow> real" where
  "multiplier config =
     (let m = 2.5;
          m = (if speed config = SLOW then 2.0 else m);
          m = (if speed config = FAST then 3.0 else m)
      in m)"

definition targetWordCount :: "StudioConfig \<Rightarrow> int" where
  "targetWordCount config = round (real_of_int (totalSeconds config) * multiplier config)"

text \<open>The \<^verbatim>\<open>contents\<close> of the text request, where it carries the word count.\<close>

definition text_contents :: "string \<Rightarrow> StudioConfig \<Rightarrow> string" where
  "text_contents prompt config =
     ''Production Topic: '' @ prompt @ ''. Word count target: ''
     @ show_int (targetWordCount config) @ ''.''"

definition text_contents_part000 :: "string \<Rightarrow> StudioConfig \<Rightarrow> string" where
  "text_contents_part000 prompt config =
     ''Topic: '' @ prompt @ [CHR 0x0A] @ ''Format: '' @ contentType_str (contentType config)
     @ [CHR 0x0A] @ ''Category: '' @ scriptCategory_str (scriptCategory config)
     @ [CHR 0x0A] @ ''Words: '' @ show_int (targetWordCount config)
     @ [CHR 0x0A] @ ''Ratio: '' @ aspectRatio_str (aspectRatio config)"

definition text_contents_dbdoc :: "string \<Rightarrow> StudioConfig \<Rightarrow> string" where
  "text_contents_dbdoc prompt config =
     ''Topic: '' @ prompt @ [CHR 0x0A] @ ''Ratio: '' @ aspectRatio_str (aspectRatio config)"

subsection \<open>\<^verbatim>\<open>generateContent\<close> of \<^verbatim>\<open>src/services/geminiService.ts\<close>\<close>

text \<open>The variables the image loop updates, and the trace so far.\<close>

record loop_state =
  images :: "string list"
  isQuotaExhausted :: bool
  trace :: "event list"

text \<open>\<^verbatim>\<open>data.imagePrompts?.[i]\<close>.\<close>

definition prompt_at :: "ContentPackage \<Rightarrow> nat \<Rightarrow> string option" where
  "prompt_at d i =
     (case imagePrompts d of None \<Rightarrow> None | Some ps \<Rightarrow> if i < length ps then Some (ps ! i) else None)"

text \<open>
  One turn of
  \<^verbatim>\<open>
  for (let i = 0; i < 4; i++) {
    if (isQuotaExhausted) {
      images.push(`https://picsum.photos/seed/${i}/${...}`);
    } else {
      try {
        await sleep(2500);
        const imgPrompt = data.imagePrompts?.[i] || `Cinematic scene for ${data.title}`;
        const img = await generateStudioImage(imgPrompt, config.aspectRatio);
        images.push(img);
      } catch (err: any) {
        console.error("Image gen failed", err);
        images.push(`https://picsum.photos/seed/err${i}/${...}`);
        if (err.message?.includes('429')) isQuotaExhausted = true;
      }
    }
    if (onProgress) onProgress(25 + (i + 1) * 15);
  }
  \<close>
\<close>

definition image_turn ::
  "world \<Rightarrow> StudioConfig \<Rightarrow> ContentPackage \<Rightarrow> bool \<Rightarrow> loop_state \<Rightarrow> nat \<Rightarrow> loop_state" where
  "image_turn w config d onProgress st i =
     (let st1 =
        (if isQuotaExhausted st then
           st\<lparr>images := images st @
                [''https://picsum.photos/seed/'' @ show_nat i @ ''/'' @ dims (aspectRatio config)]\<rparr>
         else
           (let imgPrompt = or_else (prompt_at d i) (''Cinematic scene for '' @ printed (title d));
                called = generateStudioImage w (ImageNo i) imgPrompt (aspectRatio config);
                st' = st\<lparr>trace := trace st @ sleep 2500 @ snd called\<rparr>
            in case fst called of
                 Inr img \<Rightarrow> st'\<lparr>images := images st' @ [img]\<rparr>
               | Inl err \<Rightarrow>
                   st'\<lparr>images := images st' @
                         [''https://picsum.photos/seed/err'' @ show_nat i @ ''/''
                          @ dims (aspectRatio config)],
                       isQuotaExhausted :=
                         (if message_includes_429 err then True else isQuotaExhausted st')\<rparr>))
      in st1\<lparr>trace := trace st1 @ report onProgress (25 + (int i + 1) * 15)\<rparr>)"

text \<open>
  \<^verbatim>\<open>
  let thumbnail = '';
  try {
    await sleep(3000);
    thumbnail = await generateStudioImage(data.thumbnailPrompt || `Hero shot for ${prompt}`, config.aspectRatio);
  } catch (err) {
    thumbnail = `https://picsum.photos/seed/thumb/${...}`;
  }
  \<close>
\<close>

definition thumbnail_stage ::
  "world \<Rightarrow> StudioConfig \<Rightarrow> ContentPackage \<Rightarrow> string \<Rightarrow> string \<times> event list" where
  "thumbnail_stage w config d prompt =
     (let called = generateStudioImage w Thumbnail
                     (or_else (thumbnailPrompt d) (''Hero shot for '' @ prompt)) (aspectRatio config)
      in (case fst called of
            Inr t \<Rightarrow> t
          | Inl err \<Rightarrow> ''https://picsum.photos/seed/thumb/'' @ dims (aspectRatio config),
          sleep 3000 @ snd called))"

definition assemble ::
  "StudioConfig \<Rightarrow> ContentPackage \<Rightarrow> string list \<Rightarrow> string \<Rightarrow> Audio \<Rightarrow> StudioResult" where
  "assemble config d imgs thumb audioData =
     \<lparr>data = d, result_contentType = contentType config, result_aspectRatio = aspectRatio config,
      result_images = imgs, thumbnail = thumb, audioBlob = blob audioData,
      audioUrl = url audioData\<rparr>"

text \<open>
  \<open>apiKey\<close> is \<^verbatim>\<open>process.env.API_KEY\<close>; the function starts with
  \<^verbatim>\<open>if (!apiKey || apiKey === "undefined") throw new Error(...)\<close>. The run returns its result, or
  the error it throws, and its trace.
\<close>

definition generateContent ::
  "world \<Rightarrow> string option \<Rightarrow> string \<Rightarrow> StudioConfig \<Rightarrow> bool
   \<Rightarrow> (js_error + StudioResult) \<times> event list" where
  "generateContent w apiKey prompt config onProgress =
     (if falsy_str apiKey \<or> apiKey = Some ''undefined'' then
        (Inl (new_Error ''API_KEY is missing. Please add it to your Netlify Dashboard under Site Settings > Environment Variables.''), [])
      else
        (let called = retry (text_op w (text_contents prompt config)) 3 3000;
             tr = report onProgress 5 @ map (Net TextGeneration) (snd called)
         in case fst called of
              Inl err \<Rightarrow> (Inl err, tr)
            | Inr response \<Rightarrow>
                (let tr = tr @ report onProgress 25
                 in case parse_response w response of
                      Inl err \<Rightarrow> (Inl err, tr)
                    | Inr d \<Rightarrow>
                        (let st = foldl (image_turn w config d onProgress)
                                    \<lparr>images = [], isQuotaExhausted = False, trace = tr\<rparr> [0..<4];
                             th = thumbnail_stage w config d prompt;
                             tr = trace st @ snd th @ report onProgress 90;
                             au = generateStudioAudio w (or_else (script d) []) config;
                             tr = tr @ snd au
                         in case fst au of
                              Inl err \<Rightarrow> (Inl err, tr)
                            | Inr audioData \<Rightarrow>
                                (Inr (assemble config d (images st) (fst th) audioData),
                                 tr @ report onProgress 100)))))"

subsection \<open>\<^verbatim>\<open>generateContent\<close> of \<^verbatim>\<open>src/unnamed/part_000\<close>\<close>

text \<open>
  \<^verbatim>\<open>
  let currentProgress = 20;
  let isQuotaExhausted = false;
  for (let i = 0; i < (data.imagePrompts?.length || 0); i++) {
    if (isQuotaExhausted) {
      images.push(`https://picsum.photos/seed/fallback_${i}_${Math.random()}/${...}`);
    } else {
      try {
        if (i > 0) await sleep(1500);
        const img = await generateStudioImage(data.imagePrompts[i], config.aspectRatio);
        images.push(img);
      } catch (err: any) {
        console.error("Image prompt failed, using fallback", err);
        images.push(`https://picsum.photos/seed/err_${i}_${Math.random()}/${...}`);
        if (err?.message?.includes('429')) isQuotaExhausted = true;
      }
    }
    currentProgress += 12;
    if (onProgress) onProgress(Math.min(currentProgress, 85));
  }
  let thumbnail = '';
  if (isQuotaExhausted) {
    thumbnail = `https://picsum.photos/seed/thumb_${Math.random()}/${...}`;
  } else {
    try {
      await sleep(2000);
      thumbnail = await generateStudioImage(data.thumbnailPrompt || "Cinematic title card", config.aspectRatio);
    } catch (err) {
      thumbnail = `https://picsum.photos/seed/thumb_err_${Math.random()}/${...}`;
    }
  }
  \<close>
\<close>

record loop_state_part000 = loop_state +
  currentProgress :: int

definition prompts_of :: "ContentPackage \<Rightarrow> string list" where
  "prompts_of d = (case imagePrompts d of None \<Rightarrow> [] | Some ps \<Rightarrow> ps)"

definition image_turn_part000 ::
  "world \<Rightarrow> StudioConfig \<Rightarrow> ContentPackage \<Rightarrow> bool \<Rightarrow> loop_state_part000 \<Rightarrow> nat
   \<Rightarrow> loop_state_part000" where
  "image_turn_part000 w config d onProgress st i =
     (let st1 =
        (if isQuotaExhausted st then
           st\<lparr>images := images st @
                [''https://picsum.photos/seed/fallback_'' @ show_nat i @ ''_''
                 @ math_random w (ImageNo i) @ ''/'' @ dims (aspectRatio config)]\<rparr>
         else
           (let called = generateStudioImage_part000 w (ImageNo i) (prompts_of d ! i)
                           (aspectRatio config);
                st' = st\<lparr>trace := trace st @ (if 0 < i then sleep 1500 else []) @ snd called\<rparr>
            in case fst called of
                 Inr img \<Rightarrow> st'\<lparr>images := images st' @ [img]\<rparr>
               | Inl err \<Rightarrow>
                   st'\<lparr>images := images st' @
                         [''https://picsum.photos/seed/err_'' @ show_nat i @ ''_''
                          @ math_random w (ImageNo i) @ ''/'' @ dims (aspectRatio config)],
                       isQuotaExhausted :=
                         (if message_includes_429 err then True else isQuotaExhausted st')\<rparr>));
          st2 = st1\<lparr>currentProgress := currentProgress st1 + 12\<rparr>
      in st2\<lparr>trace := trace st2 @ report onProgress (min (currentProgress st2) 85)\<rparr>)"

definition thumbnail_stage_part000 ::
  "world \<Rightarrow> StudioConfig \<Rightarrow> ContentPackage \<Rightarrow> bool \<Rightarrow> string \<times> event list" where
  "thumbnail_stage_part000 w config d quota =
     (if quota then
        (''https://picsum.photos/seed/thumb_'' @ math_random w Thumbnail @ ''/''
         @ dims (aspectRatio config), [])
      else
        (let called = generateStudioImage_part000 w Thumbnail
                        (or_else (thumbnailPrompt d) ''Cinematic title card'') (aspectRatio config)
         in (case fst called of
               Inr t \<Rightarrow> t
             | Inl err \<Rightarrow> ''https://picsum.photos/seed/thumb_err_'' @ math_random w Thumbnail
                          @ ''/'' @ dims (aspectRatio config),
             sleep 2000 @ snd called)))"

definition generateContent_part000 ::
  "world \<Rightarrow> string \<Rightarrow> StudioConfig \<Rightarrow> bool \<Rightarrow> (js_error + StudioResult) \<times> event list" where
  "generateContent_part000 w prompt config onProgress =
     (let called = retry_part000 (text_op w (text_contents_part000 prompt config)) 3 2000;
          tr = report onProgress 5 @ map (Net TextGeneration) (snd called)
      in case fst called of
           Inl err \<Rightarrow> (Inl err, tr)
         | Inr response \<Rightarrow>
             (let tr = tr @ report onProgress 20
              in case parse_response w response of
                   Inl err \<Rightarrow> (Inl err, tr)
                 | Inr d \<Rightarrow>
                     (let st = foldl (image_turn_part000 w config d onProgress)
                                 \<lparr>images = [], isQuotaExhausted = False, trace = tr,
                                  currentProgress = 20\<rparr>
                                 [0..<length (prompts_of d)];
                          th = thumbnail_stage_part000 w config d (isQuotaExhausted st);
                          tr = trace st @ snd th @ report onProgress 90;
                          au = generateStudioAudio_part000 w (or_else (script d) []) config;
                          tr = tr @ snd au
                      in case fst au of
                           Inl err \<Rightarrow> (Inl err, tr)
                         | Inr audioData \<Rightarrow>
                             (Inr (assemble config d (images st) (fst th) audioData),
                              tr @ report onProgress 100))))"

subsection \<open>\<^verbatim>\<open>generateContent\<close> of the second document of \<^verbatim>\<open>src/services/dbService.ts\<close>\<close>

text \<open>
  \<^verbatim>\<open>
  for (let i = 0; i < (data.imagePrompts?.length || 0); i++) {
    if (isQuotaExhausted) {
      images.push(`https://picsum.photos/seed/fallback_${i}/${...}`);
    } else {
      try {
        if (i > 0) await sleep(1500);
        const img = await generateStudioImage(data.imagePrompts[i], config.aspectRatio);
        images.push(img);
      } catch (err: any) {
        images.push(`https://picsum.photos/seed/err_${i}/${...}`);
        if (err?.message?.includes('429')) isQuotaExhausted = true;
      }
    }
    if (onProgress) onProgress(Math.min(20 + (i + 1) * 15, 80));
  }
  let thumbnail = '';
  try {
    await sleep(2000);
    thumbnail = await generateStudioImage(data.thumbnailPrompt || `Hero image for ${prompt}`, config.aspectRatio);
  } catch (err) {
    thumbnail = `https://picsum.photos/seed/thumb_err/${...}`;
  }
  const audioData = await generateStudioAudio(data.script || "", config);
  if (onProgress) onProgress(100);
  \<close>
\<close>

definition image_turn_dbdoc ::
  "world \<Rightarrow> StudioConfig \<Rightarrow> ContentPackage \<Rightarrow> bool \<Rightarrow> loop_state \<Rightarrow> nat \<Rightarrow> loop_state" where
  "image_turn_dbdoc w config d onProgress st i =
     (let st1 =
        (if isQuotaExhausted st then
           st\<lparr>images := images st @
                [''https://picsum.photos/seed/fallback_'' @ show_nat i @ ''/''
                 @ dims (aspectRatio config)]\<rparr>
         else
           (let called = generateStudioImage_dbdoc w (ImageNo i) (prompts_of d ! i)
                           (aspectRatio config);
                st' = st\<lparr>trace := trace st @ (if 0 < i then sleep 1500 else []) @ snd called\<rparr>
            in case fst called of
                 Inr img \<Rightarrow> st'\<lparr>images := images st' @ [img]\<rparr>
               | Inl err \<Rightarrow>
                   st'\<lparr>images := images st' @
                         [''https://picsum.photos/seed/err_'' @ show_nat i @ ''/''
                          @ dims (aspectRatio config)],
                       isQuotaExhausted :=
                         (if message_includes_429 err then True else isQuotaExhausted st')\<rparr>))
      in st1\<lparr>trace := trace st1 @ report onProgress (min (20 + (int i + 1) * 15) 80)\<rparr>)"

definition thumbnail_stage_dbdoc ::
  "world \<Rightarrow> StudioConfig \<Rightarrow> ContentPackage \<Rightarrow> string \<Rightarrow> string \<times> event list" where
  "thumbnail_stage_dbdoc w config d prompt =
     (let called = generateStudioImage_dbdoc w Thumbnail
                     (or_else (thumbnailPrompt d) (''Hero image for '' @ prompt))
                     (aspectRatio config)
      in (case fst called of
            Inr t \<Rightarrow> t
          | Inl err \<Rightarrow> ''https://picsum.photos/seed/thumb_err/'' @ dims (aspectRatio config),
          sleep 2000 @ snd called))"

definition generateContent_dbdoc ::
  "world \<Rightarrow> string \<Rightarrow> StudioConfig \<Rightarrow> bool \<Rightarrow> (js_error + StudioResult) \<times> event list" where
  "generateContent_dbdoc w prompt config onProgress =
     (let called = retry_part000 (text_op w (text_contents_dbdoc prompt config)) 3 2000;
          tr = report onProgress 5 @ map (Net TextGeneration) (snd called)
      in case fst called of
           Inl err \<Rightarrow> (Inl err, tr)
         | Inr response \<Rightarrow>
             (let tr = tr @ report onProgress 20
              in case parse_response w response of
                   Inl err \<Rightarrow> (Inl err, tr)
                 | Inr d \<Rightarrow>
                     (let st = foldl (image_turn_dbdoc w config d onProgress)
                                 \<lparr>images = [], isQuotaExhausted = False, trace = tr\<rparr>
                                 [0..<length (prompts_of d)];
                          th = thumbnail_stage_dbdoc w config d prompt;
                          tr = trace st @ snd th;
                          au = generateStudioAudio_dbdoc w (or_else (script d) []) config;
                          tr = tr @ snd au
                      in case fst au of
                           Inl err \<Rightarrow> (Inl err, tr)
                         | Inr audioData \<Rightarrow>
                             (Inr (assemble config d (images st) (fst th) audioData),
                              tr @ report onProgress 100))))"

subsection \<open>The duration effect of \<^verbatim>\<open>src/App.tsx\<close>\<close>


text \<open>The initial configuration of \<^verbatim>\<open>App.tsx\<close> (\<^verbatim>\<open>defaultVal\<close>).\<close>

definition defaultVal :: StudioConfig where
  "defaultVal =
     \<lparr>language = ENGLISH, primaryGender = MALE, voiceId = voice_id (VOICES ! 0), tone = ENERGETIC,
      speed = NORMAL, volume = Fin 1, contentType = REEL, scriptCategory = TECH,
      durationMinutes = 0, durationSeconds = 30, aspectRatio = VERTICAL\<rparr>"

subsection \<open>Reading a result and a trace\<close>

text \<open>The percentages delivered to the callback, in order.\<close>

fun progress_of :: "event list \<Rightarrow> int list" where
  "progress_of [] = []"
| "progress_of (Progress p # tr) = p # progress_of tr"
| "progress_of (ev # tr) = progress_of tr"

text \<open>The number of remote image requests made for a slot.\<close>

fun image_calls :: "slot \<Rightarrow> event list \<Rightarrow> nat" where
  "image_calls sl [] = 0"
| "image_calls sl (Net (ImageGeneration sl') (Attempt i) # tr) =
     (if sl' = sl then Suc (image_calls sl tr) else image_calls sl tr)"
| "image_calls sl (ev # tr) = image_calls sl tr"

text \<open>A placeholder reference, as against a generated \<^verbatim>\<open>data:\<close> reference.\<close>

definition is_placeholder :: "string \<Rightarrow> bool" where
  "is_placeholder ref = prefix ''https://picsum.photos/seed/'' ref"

subsection \<open>Stubs for the worked examples\<close>

text \<open>
  A content package with four image prompts, and a world in which every remote call succeeds
  at once: an image response carries one inline payload (in its second part), the speech
  response carries none, and products are exact.
\<close>

definition four_prompts :: ContentPackage where
  "four_prompts =
     \<lparr>title = Some ''Mountain sunrise'', script = Some ''The sun rises.'',
      description = Some ''d'', caption = Some ''c'', hashtags = Some [''#sun''],
      bestTime = Some ''6 am'', imagePrompts = Some [''p1'', ''p2'', ''p3'', ''p4''],
      thumbnailPrompt = Some ''hero''\<rparr>"

definition stub_world :: world where
  "stub_world =
     \<lparr>text_op = (\<lambda>req i. Inr \<lparr>resp_text = Some ''json'', resp_parts = []\<rparr>),
      image_op = (\<lambda>sl req i. Inr \<lparr>resp_text = None, resp_parts = [None, Some ''IMG'']\<rparr>),
      audio_op = (\<lambda>req i. Inr \<lparr>resp_text = None, resp_parts = []\<rparr>),
      json_parse = (\<lambda>t. Inr four_prompts),
      atob = (\<lambda>s. Inr []),
      createObjectURL = (\<lambda>b. ''blob:stub''),
      math_random = (\<lambda>sl. ''0.5''),
      fl = Fin\<rparr>"

text \<open>The same world, but every request for the second image is answered with a 429.\<close>

definition stub_world_429 :: world where
  "stub_world_429 =
     stub_world\<lparr>image_op := (\<lambda>sl req i.
        if sl = ImageNo 1 then Inl (new_Error ''429 Too Many Requests'')
        else image_op stub_world sl req i)\<rparr>"

text \<open>
  Three worlds for the audio stage: one in which every speech request fails, one in which the
  speech response carries a payload that \<^verbatim>\<open>atob\<close> rejects, and one in which the payload decodes
  to three bytes, which are not whole samples.
\<close>

definition stub_world_mute :: world where
  "stub_world_mute = stub_world\<lparr>audio_op := (\<lambda>req i. Inl (new_Error ''500 Internal''))\<rparr>"

definition stub_world_garbled :: world where
  "stub_world_garbled =
     stub_world\<lparr>audio_op := (\<lambda>req i. Inr \<lparr>resp_text = None, resp_parts = [Some ''%%%'']\<rparr>),
                atob := (\<lambda>s. Inl (new_Error ''InvalidCharacterError''))\<rparr>"

definition stub_world_odd :: world where
  "stub_world_odd =
     stub_world\<lparr>audio_op := (\<lambda>req i. Inr \<lparr>resp_text = None, resp_parts = [Some ''AQID'']\<rparr>),
                atob := (\<lambda>s. Inr [1, 2, 3])\<rparr>"

section \<open>Properties\<close>

subsection \<open>The audio container\<close>

lemma le_digits32:
  fixes n :: nat
  assumes "n < 4294967296"
  shows "n mod 256 + 256 * (n div 256 mod 256) + 65536 * (n div 65536 mod 256)
         + 16777216 * (n div 16777216 mod 256) = n"
proof -
  define a where "a = n div 256"
  define b where "b = a div 256"
  define c where "c = b div 256"
  have n: "n = 256 * a + n mod 256" by (simp add: a_def)
  have a: "a = 256 * b + a mod 256" by (simp add: b_def)
  have b: "b = 256 * c + b mod 256" by (simp add: c_def)
  have b': "n div 65536 = b" by (simp add: a_def b_def div_mult2_eq)
  have c': "n div 16777216 = c" by (simp add: a_def b_def c_def div_mult2_eq)
  have "c < 256" using assms unfolding c' [symmetric] by simp
  then have cm: "c mod 256 = c" by simp
  show ?thesis
    unfolding b' c' cm a_def [symmetric]
    using n a b by linarith
qed

lemma le32_rev_be: "le32 (rev (be_bytes32 w)) = unat w"
proof -
  have b: "unat w < 4294967296" using unsigned_less [of w, where 'a=nat] by simp
  show ?thesis
    unfolding le32_def be_bytes32_def
    by (simp add: unsigned_ucast_eq take_bit_eq_mod drop_bit_eq_div unat_div le_digits32 [OF b])
qed

lemma zeros44:
  "replicate 44 (0::byte) =
     [0,0,0,0, 0,0,0,0, 0,0,0,0, 0,0,0,0, 0,0,0,0, 0,0,0,0, 0,0,0,0,
      0,0,0,0, 0,0,0,0, 0,0,0,0, 0,0,0,0]"
  by (simp add: numeral_eq_Suc)

text \<open>The header, field by field.\<close>

lemma createWavHeader_layout:
  "createWavHeader L R =
     be_bytes32 0x52494646 @ rev (be_bytes32 (word_of_int (36 + int L))) @
     be_bytes32 0x57415645 @ be_bytes32 0x666d7420 @
     rev (be_bytes16 16) @ [0, 0] @
     rev (be_bytes16 1) @ rev (be_bytes16 1) @
     rev (be_bytes32 (word_of_int R)) @ rev (be_bytes32 (word_of_int (R * 2))) @
     rev (be_bytes16 2) @ rev (be_bytes16 16) @
     be_bytes32 0x64617461 @ rev (be_bytes32 (word_of_int (int L)))"
  unfolding createWavHeader_def o_def
  apply (simp only: zeros44)
  apply (simp add: setUint32_def setUint16_def write_bytes_def be_bytes32_def be_bytes16_def)
  done

lemma length_be_bytes32: "length (be_bytes32 w) = 4"
  by (simp add: be_bytes32_def)

lemma length_be_bytes16: "length (be_bytes16 w) = 2"
  by (simp add: be_bytes16_def)

lemma createWavHeader_length: "length (createWavHeader L R) = 44"
  by (simp add: createWavHeader_layout length_be_bytes32 length_be_bytes16)

lemma wavContainer_eq: "wavContainer pcm R = createWavHeader (length pcm) R @ pcm"
  by (simp add: wavContainer_def write_bytes_def Let_def createWavHeader_length)

lemma le16_rev_be: "le16 (rev (be_bytes16 w)) = unat w"
proof -
  have "unat w < 65536" using unsigned_less [of w, where 'a=nat] by simp
  then have "unat w div 256 < 256" by simp
  then have e: "unat w div 256 mod 256 = unat w div 256" by simp
  show ?thesis
    unfolding le16_def be_bytes16_def
    by (simp add: unsigned_ucast_eq take_bit_eq_mod drop_bit_eq_div unat_div e)
qed

lemma unat_ToUint32_nat: "unat (word_of_int (int n) :: 32 word) = n mod 4294967296"
  by (simp add: unat_of_nat)

lemma unat_ToUint32: "unat (word_of_int k :: 32 word) = nat (k mod 4294967296)"
  by (simp add: unsigned_of_int take_bit_eq_mod)

lemma wav_fields:
  "field 0 4 (createWavHeader L R @ pcm) = be_bytes32 0x52494646"
  "field 4 4 (createWavHeader L R @ pcm) = rev (be_bytes32 (word_of_int (36 + int L)))"
  "field 8 4 (createWavHeader L R @ pcm) = be_bytes32 0x57415645"
  "field 12 4 (createWavHeader L R @ pcm) = be_bytes32 0x666d7420"
  "field 16 4 (createWavHeader L R @ pcm) = rev (be_bytes16 16) @ [0, 0]"
  "field 20 2 (createWavHeader L R @ pcm) = rev (be_bytes16 1)"
  "field 22 2 (createWavHeader L R @ pcm) = rev (be_bytes16 1)"
  "field 24 4 (createWavHeader L R @ pcm) = rev (be_bytes32 (word_of_int R))"
  "field 28 4 (createWavHeader L R @ pcm) = rev (be_bytes32 (word_of_int (R * 2)))"
  "field 32 2 (createWavHeader L R @ pcm) = rev (be_bytes16 2)"
  "field 34 2 (createWavHeader L R @ pcm) = rev (be_bytes16 16)"
  "field 36 4 (createWavHeader L R @ pcm) = be_bytes32 0x64617461"
  "field 40 4 (createWavHeader L R @ pcm) = rev (be_bytes32 (word_of_int (int L)))"
  by (simp_all add: field_def createWavHeader_layout length_be_bytes32 length_be_bytes16)

lemma ascii_markers:
  "ascii ''RIFF'' = be_bytes32 0x52494646"
  "ascii ''WAVE'' = be_bytes32 0x57415645"
  "ascii ''fmt '' = be_bytes32 0x666d7420"
  "ascii ''data'' = be_bytes32 0x64617461"
  by (simp_all add: ascii_def be_bytes32_def)

text \<open>
  C1 (as amended). For every PCM byte array of length \<open>L\<close> with \<open>36 + L < 2 ^ 32\<close> and every
  (integer) sample rate \<open>R\<close>, the container is \<open>44 + L\<close> bytes long; read as little-endian
  numbers, its chunk-size field (offset 4) is \<open>36 + L\<close> and its data-length field (offset 40) is
  \<open>L\<close>; the four markers are the ASCII texts \<open>RIFF\<close>, \<open>WAVE\<close>, \<open>fmt \<close> and \<open>data\<close> in reading
  order (the big-endian bytes of the four constants); every other numeric field, read
  little-endian, is the value the source writes (sub-chunk size 16, format 1, one channel, the
  rate and twice the rate modulo \<open>2 ^ 32\<close>, block align 2, 16 bits per sample); and the PCM bytes
  follow the 44 header bytes unchanged, with nothing in between or after.
\<close>

theorem wav_container_layout:
  assumes "36 + length pcm < 2 ^ 32"
  shows "length (wavContainer pcm R) = 44 + length pcm
       \<and> le32 (field 4 4 (wavContainer pcm R)) = 36 + length pcm
       \<and> le32 (field 40 4 (wavContainer pcm R)) = length pcm
       \<and> field 0 4 (wavContainer pcm R) = ascii ''RIFF''
       \<and> field 8 4 (wavContainer pcm R) = ascii ''WAVE''
       \<and> field 12 4 (wavContainer pcm R) = ascii ''fmt ''
       \<and> field 36 4 (wavContainer pcm R) = ascii ''data''
       \<and> le32 (field 16 4 (wavContainer pcm R)) = 16
       \<and> le16 (field 20 2 (wavContainer pcm R)) = 1
       \<and> le16 (field 22 2 (wavContainer pcm R)) = 1
       \<and> le32 (field 24 4 (wavContainer pcm R)) = nat (R mod 2 ^ 32)
       \<and> le32 (field 28 4 (wavContainer pcm R)) = nat ((R * 2) mod 2 ^ 32)
       \<and> le16 (field 32 2 (wavContainer pcm R)) = 2
       \<and> le16 (field 34 2 (wavContainer pcm R)) = 16
       \<and> drop 44 (wavContainer pcm R) = pcm"
proof -
  have L: "length pcm < 4294967296" and L36: "36 + length pcm < 4294967296"
    using assms by simp_all
  have c: "36 + int (length pcm) = int (36 + length pcm)" by simp
  have "le32 (field 4 4 (wavContainer pcm R)) = 36 + length pcm"
    unfolding wavContainer_eq wav_fields le32_rev_be c unat_ToUint32_nat using L36 by simp
  moreover have "le32 (field 40 4 (wavContainer pcm R)) = length pcm"
    unfolding wavContainer_eq wav_fields le32_rev_be unat_ToUint32_nat using L by simp
  moreover have "le32 (field 16 4 (wavContainer pcm R)) = 16"
    unfolding wavContainer_eq wav_fields by (simp add: le32_def be_bytes16_def)
  moreover have "le32 (field 24 4 (wavContainer pcm R)) = nat (R mod 2 ^ 32)"
    unfolding wavContainer_eq wav_fields le32_rev_be unat_ToUint32 by simp
  moreover have "le32 (field 28 4 (wavContainer pcm R)) = nat ((R * 2) mod 2 ^ 32)"
    unfolding wavContainer_eq wav_fields le32_rev_be unat_ToUint32 by simp
  moreover have "le16 (field 20 2 (wavContainer pcm R)) = 1"
    "le16 (field 22 2 (wavContainer pcm R)) = 1"
    "le16 (field 32 2 (wavContainer pcm R)) = 2"
    "le16 (field 34 2 (wavContainer pcm R)) = 16"
    unfolding wavContainer_eq wav_fields le16_rev_be by simp_all
  moreover have "drop 44 (wavContainer pcm R) = pcm"
    "length (wavContainer pcm R) = 44 + length pcm"
    by (simp_all add: wavContainer_eq createWavHeader_length)
  moreover have "field 0 4 (wavContainer pcm R) = ascii ''RIFF''"
    "field 8 4 (wavContainer pcm R) = ascii ''WAVE''"
    "field 12 4 (wavContainer pcm R) = ascii ''fmt ''"
    "field 36 4 (wavContainer pcm R) = ascii ''data''"
    unfolding wavContainer_eq wav_fields ascii_markers by simp_all
  ultimately show ?thesis by simp
qed

theorem wav_container_layout_witness:
  "36 + length [1, 2, 3 :: byte] < 2 ^ 32
   \<and> length (wavContainer [1, 2, 3] 24000) = 47
   \<and> le32 (field 4 4 (wavContainer [1, 2, 3] 24000)) = 39
   \<and> le32 (field 40 4 (wavContainer [1, 2, 3] 24000)) = 3
   \<and> field 0 4 (wavContainer [1, 2, 3] 24000) = [0x52, 0x49, 0x46, 0x46]
   \<and> le32 (field 24 4 (wavContainer [1, 2, 3] 24000)) = 24000
   \<and> le32 (field 28 4 (wavContainer [1, 2, 3] 24000)) = 48000
   \<and> drop 44 (wavContainer [1, 2, 3] 24000) = [1, 2, 3]"
  using wav_container_layout [of "[1, 2, 3]" 24000] by (simp add: ascii_def)

text \<open>
  C1 as stated (every length \<open>L\<close>) fails: \<^verbatim>\<open>setUint32\<close> keeps 32 bits, so for a PCM array of
  \<open>2 ^ 32 - 36\<close> bytes the chunk-size field reads 0, not \<open>36 + L = 2 ^ 32\<close>.
\<close>

theorem wav_chunk_size_wraps:
  "le32 (field 4 4 (wavContainer (replicate 4294967260 0) 24000))
     \<noteq> 36 + length (replicate 4294967260 (0 :: byte))"
  by (simp add: wavContainer_eq wav_fields le32_rev_be)

subsection \<open>The retry policy\<close>

text \<open>
  In \<^verbatim>\<open>geminiService.ts\<close> a first failure whose text carries a credential marker ends the
  wrapper at once: one invocation, no warning, no timer, and the credential-configuration error
  in place of the raw one.
\<close>

lemma retry_credential_fast_fail:
  assumes "fn 0 = Inl e" and "errorMsg_of e = Some m" and "isAuthError m"
  shows "retry fn retries initialDelay = (Inl apiKeyIssue, [Attempt 0])"
  using assms by (simp add: retry_def retry_loop.simps)

text \<open>
  C4. The \<^verbatim>\<open>retry\<close> of \<^verbatim>\<open>src/unnamed/part_000\<close> (and of the second document of
  \<^verbatim>\<open>dbService.ts\<close>) has no credential check: on an operation that always fails with
  \<open>403 Forbidden\<close> it invokes the operation four times, sleeps 2000, 4000 and 8000 ms, and
  rethrows the raw error. On the same operation the \<^verbatim>\<open>retry\<close> of \<^verbatim>\<open>geminiService.ts\<close> stops
  after one invocation with the credential-configuration error.
\<close>

theorem retry_part000_retries_credential_errors:
  "retry_part000 (\<lambda>i. Inl (new_Error ''403 Forbidden'') :: js_error + response) 3 2000 =
     (Inl (new_Error ''403 Forbidden''),
      [Attempt 0, Warn 1 2000, Sleep 2000, Attempt 1, Warn 2 4000, Sleep 4000,
       Attempt 2, Warn 3 8000, Sleep 8000, Attempt 3])
   \<and> retry (\<lambda>i. Inl (new_Error ''403 Forbidden'') :: js_error + response) 3 3000 =
     (Inl apiKeyIssue, [Attempt 0])"
  by code_simp




subsection \<open>Word count and duration\<close>







subsection \<open>The gain stage\<close>











text \<open>
  C10. A falsy volume (0 or \<^verbatim>\<open>NaN\<close>) is replaced by 1.0: the gain stage returns the PCM bytes
  unchanged, and the \<^verbatim>\<open>try\<close> block of \<^verbatim>\<open>part_000\<close> then does what the one without a gain stage
  does. A volume of zero does not silence the audio.
\<close>

theorem zero_volume_is_unity:
  "(\<not> truthy_num (volume config) \<longrightarrow>
      apply_volume w (volume config) pcm = Inr pcm
      \<and> audio_try_part000 w config called = audio_try w called)
   \<and> apply_volume w (Fin 0) pcm = Inr pcm
   \<and> apply_volume w NaN pcm = Inr pcm"
  by (auto simp: apply_volume_def truthy_num_def audio_try_part000_def audio_try_def
      split: sum.splits option.splits jsnum.splits)

theorem zero_volume_is_unity_witness:
  "\<not> truthy_num (volume (defaultVal\<lparr>volume := Fin 0\<rparr>))
   \<and> apply_volume stub_world (volume (defaultVal\<lparr>volume := Fin 0\<rparr>)) [0x00, 0x40, 0xFF, 0xFF]
       = Inr [0x00, 0x40, 0xFF, 0xFF]"
  using zero_volume_is_unity
    [of "defaultVal\<lparr>volume := Fin 0\<rparr>" stub_world "[0x00, 0x40, 0xFF, 0xFF]"]
  by (simp add: truthy_num_def)

subsection \<open>Traces of the orchestrator\<close>

lemma progress_of_append [simp]: "progress_of (a @ b) = progress_of a @ progress_of b"
  by (induction a rule: progress_of.induct) simp_all

lemma progress_of_Net [simp]: "progress_of (map (Net st) evs) = []"
  by (induction evs) simp_all

lemma progress_of_sleep [simp]: "progress_of (sleep ms) = []"
  by (simp add: sleep_def)

lemma progress_of_report [simp]: "progress_of (report cb p) = (if cb then [p] else [])"
  by (simp add: report_def)

lemma progress_of_image [simp]:
  "progress_of (snd (generateStudioImage w sl p a)) = []"
  "progress_of (snd (generateStudioImage_part000 w sl p a)) = []"
  "progress_of (snd (generateStudioImage_dbdoc w sl p a)) = []"
  by (simp_all add: generateStudioImage_def generateStudioImage_part000_def
      generateStudioImage_dbdoc_def Let_def)

lemma progress_of_audio [simp]:
  "progress_of (snd (generateStudioAudio w s c)) = []"
  "progress_of (snd (generateStudioAudio_part000 w s c)) = []"
  "progress_of (snd (generateStudioAudio_dbdoc w s c)) = []"
  by (simp_all add: generateStudioAudio_def generateStudioAudio_part000_def
      generateStudioAudio_dbdoc_def Let_def)

lemma falling_back_Inr: "\<exists>a. falling_back t = Inr a"
  by (simp add: falling_back_def split: sum.splits option.splits)

lemma audio_returns:
  "\<exists>a. fst (generateStudioAudio w s c) = Inr a"
  "\<exists>a. fst (generateStudioAudio_part000 w s c) = Inr a"
  "\<exists>a. fst (generateStudioAudio_dbdoc w s c) = Inr a"
  by (simp_all add: generateStudioAudio_def generateStudioAudio_part000_def
      generateStudioAudio_dbdoc_def Let_def falling_back_Inr)

lemma image_turn_progress:
  "progress_of (trace (image_turn w c d cb st i)) =
     progress_of (trace st) @ (if cb then [25 + (int i + 1) * 15] else [])"
  by (simp add: image_turn_def Let_def split: sum.splits)

lemma image_loop_progress:
  "progress_of (trace (foldl (image_turn w c d cb) st [0..<n])) =
     progress_of (trace st) @ (if cb then map (\<lambda>i. 25 + (int i + 1) * 15) [0..<n] else [])"
  by (induction n) (simp_all add: image_turn_progress)

lemma upt4: "[0..<4] = [0, 1, 2, 3]"
  by (simp add: upt_rec)

lemma map_upt4: "map f [0..<4] = [f 0, f 1, f 2, f 3]"
  by (simp add: upt4)

lemma thumbnail_progress [simp]:
  "progress_of (snd (thumbnail_stage w c d p)) = []"
  "progress_of (snd (thumbnail_stage_part000 w c d q)) = []"
  "progress_of (snd (thumbnail_stage_dbdoc w c d p)) = []"
  by (simp_all add: thumbnail_stage_def thumbnail_stage_part000_def thumbnail_stage_dbdoc_def Let_def)

lemma falling_back_not_Inl [simp]: "falling_back t \<noteq> Inl e"
  by (simp add: falling_back_def split: sum.splits option.splits)

lemma audio_not_Inl [simp]:
  "fst (generateStudioAudio w s c) \<noteq> Inl e"
  "fst (generateStudioAudio_part000 w s c) \<noteq> Inl e"
  "fst (generateStudioAudio_dbdoc w s c) \<noteq> Inl e"
  by (simp_all add: generateStudioAudio_def generateStudioAudio_part000_def
      generateStudioAudio_dbdoc_def Let_def)

lemma generateContent_progress:
  "progress_of (snd (generateContent w k p c cb)) =
     (if falsy_str k \<or> k = Some ''undefined'' \<or> \<not> cb then []
      else case fst (retry (text_op w (text_contents p c)) 3 3000) of
             Inl err \<Rightarrow> [5]
           | Inr response \<Rightarrow>
               (case parse_response w response of
                  Inl err \<Rightarrow> [5, 25]
                | Inr d \<Rightarrow> [5, 25, 40, 55, 70, 85, 90, 100]))"
  by (simp add: generateContent_def Let_def image_loop_progress map_upt4 split: sum.splits)

lemma image_turn_part000_progress:
  "progress_of (trace (image_turn_part000 w c d cb st i)) =
     progress_of (trace st) @ (if cb then [min (currentProgress st + 12) 85] else [])"
  "currentProgress (image_turn_part000 w c d cb st i) = currentProgress st + 12"
  by (simp_all add: image_turn_part000_def Let_def split: sum.splits)

lemma image_loop_part000_currentProgress:
  "currentProgress (foldl (image_turn_part000 w c d cb) st [0..<n]) = currentProgress st + 12 * int n"
  by (induction n) (simp_all add: image_turn_part000_progress algebra_simps)

lemma image_loop_part000_progress:
  "progress_of (trace (foldl (image_turn_part000 w c d cb) st [0..<n])) =
     progress_of (trace st)
     @ (if cb then map (\<lambda>i. min (currentProgress st + 12 * (int i + 1)) 85) [0..<n] else [])"
  by (induction n)
    (simp_all add: image_turn_part000_progress image_loop_part000_currentProgress algebra_simps)

lemma generateContent_part000_progress:
  "progress_of (snd (generateContent_part000 w p c cb)) =
     (if \<not> cb then []
      else case fst (retry_part000 (text_op w (text_contents_part000 p c)) 3 2000) of
             Inl err \<Rightarrow> [5]
           | Inr response \<Rightarrow>
               (case parse_response w response of
                  Inl err \<Rightarrow> [5, 20]
                | Inr d \<Rightarrow> [5, 20] @ map (\<lambda>i. min (20 + 12 * (int i + 1)) 85) [0..<length (prompts_of d)]
                            @ [90, 100]))"
  by (simp add: generateContent_part000_def Let_def image_loop_part000_progress split: sum.splits)

lemma image_turn_dbdoc_progress:
  "progress_of (trace (image_turn_dbdoc w c d cb st i)) =
     progress_of (trace st) @ (if cb then [min (20 + (int i + 1) * 15) 80] else [])"
  by (simp add: image_turn_dbdoc_def Let_def split: sum.splits)

lemma image_loop_dbdoc_progress:
  "progress_of (trace (foldl (image_turn_dbdoc w c d cb) st [0..<n])) =
     progress_of (trace st) @ (if cb then map (\<lambda>i. min (20 + (int i + 1) * 15) 80) [0..<n] else [])"
  by (induction n) (simp_all add: image_turn_dbdoc_progress)

lemma generateContent_dbdoc_progress:
  "progress_of (snd (generateContent_dbdoc w p c cb)) =
     (if \<not> cb then []
      else case fst (retry_part000 (text_op w (text_contents_dbdoc p c)) 3 2000) of
             Inl err \<Rightarrow> [5]
           | Inr response \<Rightarrow>
               (case parse_response w response of
                  Inl err \<Rightarrow> [5, 20]
                | Inr d \<Rightarrow> [5, 20] @ map (\<lambda>i. min (20 + (int i + 1) * 15) 80) [0..<length (prompts_of d)]
                            @ [100]))"
  by (simp add: generateContent_dbdoc_def Let_def image_loop_dbdoc_progress split: sum.splits)

lemma sorted_map_upt:
  fixes f :: "nat \<Rightarrow> int"
  assumes "\<And>i j. i \<le> j \<Longrightarrow> f i \<le> f j"
  shows "sorted (map f [0..<n])"
  using assms by (simp add: sorted_map sorted_wrt_iff_nth_less)

lemma bracket_sorted:
  fixes f :: "nat \<Rightarrow> int"
  assumes m: "\<And>i j. i \<le> j \<Longrightarrow> f i \<le> f j" and lo: "\<And>i. a \<le> f i" and hi: "\<And>i. f i \<le> b"
    and "sorted pre" "\<forall>x\<in>set pre. x \<le> a" "sorted post" "\<forall>y\<in>set post. b \<le> y" "a \<le> b"
  shows "sorted (pre @ map f [0..<n] @ post)"
  using assms(4-) sorted_map_upt [of f n, OF m] lo hi
  by (fastforce simp: sorted_append intro: order_trans)

lemma list_all_map_upt:
  "(\<And>i. P (f i)) \<Longrightarrow> list_all P (map f [0..<n])"
  by (simp add: list_all_iff)

text \<open>
  C9. In every run of each of the three orchestrators the percentages delivered to the callback
  are non-decreasing and lie between 0 and 100. They are reported at the stage boundaries only:
  in \<^verbatim>\<open>geminiService.ts\<close> the delivered sequence is empty (no callback, or no API key), \<open>[5]\<close>
  (the text call failed), \<open>[5, 25]\<close> (the response did not parse) or
  \<open>[5, 25, 40, 55, 70, 85, 90, 100]\<close>; the lemmas \<open>generateContent_part000_progress\<close> and
  \<open>generateContent_dbdoc_progress\<close> give the sequences of the other two copies.
\<close>

theorem progress_monotone:
  "sorted (progress_of (snd (generateContent w k p c cb)))
   \<and> list_all (\<lambda>x. 0 \<le> x \<and> x \<le> 100) (progress_of (snd (generateContent w k p c cb)))
   \<and> progress_of (snd (generateContent w k p c cb))
        \<in> {[], [5], [5, 25], [5, 25, 40, 55, 70, 85, 90, 100]}
   \<and> sorted (progress_of (snd (generateContent_part000 w p c cb)))
   \<and> list_all (\<lambda>x. 0 \<le> x \<and> x \<le> 100) (progress_of (snd (generateContent_part000 w p c cb)))
   \<and> sorted (progress_of (snd (generateContent_dbdoc w p c cb)))
   \<and> list_all (\<lambda>x. 0 \<le> x \<and> x \<le> 100) (progress_of (snd (generateContent_dbdoc w p c cb)))"
proof -
  have v1: "progress_of (snd (generateContent w k p c cb))
        \<in> {[], [5], [5, 25], [5, 25, 40, 55, 70, 85, 90, 100]}"
    unfolding generateContent_progress by (simp split: sum.splits)
  then have v1s: "sorted (progress_of (snd (generateContent w k p c cb)))"
    and v1b: "list_all (\<lambda>x. 0 \<le> x \<and> x \<le> 100) (progress_of (snd (generateContent w k p c cb)))"
    by auto
  have s2: "sorted ([5, 20] @ map (\<lambda>i. min (20 + 12 * (int i + 1)) 85) [0..<n] @ [90, 100])" for n
    by (rule bracket_sorted [where a = 20 and b = 85]) auto
  have b2: "list_all (\<lambda>x. 0 \<le> x \<and> x \<le> 100) (map (\<lambda>i. min (20 + 12 * (int i + 1)) 85) [0..<n])" for n
    by (rule list_all_map_upt) auto
  have s3: "sorted ([5, 20] @ map (\<lambda>i. min (20 + (int i + 1) * 15) 80) [0..<n] @ [100])" for n
    by (rule bracket_sorted [where a = 20 and b = 80]) auto
  have b3: "list_all (\<lambda>x. 0 \<le> x \<and> x \<le> 100) (map (\<lambda>i. min (20 + (int i + 1) * 15) 80) [0..<n])" for n
    by (rule list_all_map_upt) auto
  have v2s: "sorted (progress_of (snd (generateContent_part000 w p c cb)))"
    unfolding generateContent_part000_progress using s2 by (simp split: sum.splits)
  have v2b: "list_all (\<lambda>x. 0 \<le> x \<and> x \<le> 100) (progress_of (snd (generateContent_part000 w p c cb)))"
    unfolding generateContent_part000_progress using b2 by (simp split: sum.splits)
  have v3s: "sorted (progress_of (snd (generateContent_dbdoc w p c cb)))"
    unfolding generateContent_dbdoc_progress using s3 by (simp split: sum.splits)
  have v3b: "list_all (\<lambda>x. 0 \<le> x \<and> x \<le> 100) (progress_of (snd (generateContent_dbdoc w p c cb)))"
    unfolding generateContent_dbdoc_progress using b3 by (simp split: sum.splits)
  from v1 v1s v1b v2s v2b v3s v3b show ?thesis by blast
qed

theorem progress_monotone_witness:
  "progress_of (snd (generateContent stub_world (Some ''key'') ''mountain sunrise'' defaultVal True))
     = [5, 25, 40, 55, 70, 85, 90, 100]
   \<and> sorted [5, 25, 40, 55, 70, 85, 90, 100 :: int]
   \<and> progress_of (snd (generateContent_part000 stub_world ''mountain sunrise'' defaultVal True))
     = [5, 20, 32, 44, 56, 68, 90, 100]
   \<and> sorted [5, 20, 32, 44, 56, 68, 90, 100 :: int]
   \<and> progress_of (snd (generateContent_dbdoc stub_world ''mountain sunrise'' defaultVal True))
     = [5, 20, 35, 50, 65, 80, 100]
   \<and> sorted [5, 20, 35, 50, 65, 80, 100 :: int]"
proof -
  have e: "progress_of (snd (generateContent stub_world (Some ''key'') ''mountain sunrise''
             defaultVal True)) = [5, 25, 40, 55, 70, 85, 90, 100]"
    "progress_of (snd (generateContent_part000 stub_world ''mountain sunrise'' defaultVal True))
       = [5, 20, 32, 44, 56, 68, 90, 100]"
    "progress_of (snd (generateContent_dbdoc stub_world ''mountain sunrise'' defaultVal True))
       = [5, 20, 35, 50, 65, 80, 100]"
    by code_simp+
  show ?thesis
    using progress_monotone [of stub_world "Some ''key''" "''mountain sunrise''" defaultVal True]
    unfolding e by simp
qed

subsection \<open>The audio stage\<close>

text \<open>
  C3. In all three copies \<^verbatim>\<open>generateStudioAudio\<close> returns an artifact whatever the world does
  (it never throws). Whenever its \<^verbatim>\<open>try\<close> block throws the artifact is the empty one: empty
  blob, empty URL. The \<^verbatim>\<open>try\<close> block throws what the retried call throws, what \<^verbatim>\<open>atob\<close>
  throws on the payload and, in \<^verbatim>\<open>part_000\<close>, what the gain stage throws.
\<close>

theorem audio_stage_never_throws:
  "(\<exists>a. fst (generateStudioAudio w s c) = Inr a)
   \<and> (\<exists>a. fst (generateStudioAudio_part000 w s c) = Inr a)
   \<and> (\<exists>a. fst (generateStudioAudio_dbdoc w s c) = Inr a)
   \<and> (audio_try w (fst (retry (audio_op w (audioRequest s c)) 1 5000)) = Inl e
        \<longrightarrow> fst (generateStudioAudio w s c) = Inr empty_audio)
   \<and> (audio_try_part000 w c (fst (retry_part000 (audio_op w (audioRequest_part000 s c)) 3 2000)) = Inl e
        \<longrightarrow> fst (generateStudioAudio_part000 w s c) = Inr empty_audio)
   \<and> (audio_try w (fst (retry_part000 (audio_op w (audioRequest_dbdoc s c)) 3 2000)) = Inl e
        \<longrightarrow> fst (generateStudioAudio_dbdoc w s c) = Inr empty_audio)
   \<and> audio_try w (Inl e) = Inl e
   \<and> audio_try_part000 w c (Inl e) = Inl e
   \<and> (base64Audio response = Some b64 \<and> b64 \<noteq> [] \<and> atob w b64 = Inl e
        \<longrightarrow> audio_try w (Inr response) = Inl e \<and> audio_try_part000 w c (Inr response) = Inl e)
   \<and> (base64Audio response = Some b64 \<and> b64 \<noteq> [] \<and> atob w b64 = Inr pcm
        \<and> apply_volume w (volume c) pcm = Inl e
        \<longrightarrow> audio_try_part000 w c (Inr response) = Inl e)
   \<and> blob_bytes (blob empty_audio) = [] \<and> url empty_audio = []"
proof -
  have f1: "audio_try w (fst (retry (audio_op w (audioRequest s c)) 1 5000)) = Inl e
        \<longrightarrow> fst (generateStudioAudio w s c) = Inr empty_audio"
    by (simp add: generateStudioAudio_def Let_def falling_back_def)
  have f2: "audio_try_part000 w c
          (fst (retry_part000 (audio_op w (audioRequest_part000 s c)) 3 2000)) = Inl e
        \<longrightarrow> fst (generateStudioAudio_part000 w s c) = Inr empty_audio"
    by (simp add: generateStudioAudio_part000_def Let_def falling_back_def)
  have f3: "audio_try w (fst (retry_part000 (audio_op w (audioRequest_dbdoc s c)) 3 2000)) = Inl e
        \<longrightarrow> fst (generateStudioAudio_dbdoc w s c) = Inr empty_audio"
    by (simp add: generateStudioAudio_dbdoc_def Let_def falling_back_def)
  have t1: "audio_try w (Inl e) = Inl e" "audio_try_part000 w c (Inl e) = Inl e"
    by (simp_all add: audio_try_def audio_try_part000_def)
  have t2: "base64Audio response = Some b64 \<and> b64 \<noteq> [] \<and> atob w b64 = Inl e
        \<longrightarrow> audio_try w (Inr response) = Inl e \<and> audio_try_part000 w c (Inr response) = Inl e"
    by (simp add: audio_try_def audio_try_part000_def)
  have t3: "base64Audio response = Some b64 \<and> b64 \<noteq> [] \<and> atob w b64 = Inr pcm
        \<and> apply_volume w (volume c) pcm = Inl e
        \<longrightarrow> audio_try_part000 w c (Inr response) = Inl e"
    by (simp add: audio_try_part000_def)
  have e: "blob_bytes (blob empty_audio) = []" "url empty_audio = []"
    by (simp_all add: empty_audio_def)
  from audio_returns [of w s c] f1 f2 f3 t1 t2 t3 e show ?thesis by blast
qed

theorem audio_stage_never_throws_witness:
  "audio_try stub_world_mute
     (fst (retry (audio_op stub_world_mute (audioRequest ''The sun rises.'' defaultVal)) 1 5000))
     = Inl (new_Error ''500 Internal'')
   \<and> fst (generateStudioAudio stub_world_mute ''The sun rises.'' defaultVal) = Inr empty_audio
   \<and> fst (generateStudioAudio_part000 stub_world_mute ''The sun rises.'' defaultVal)
       = Inr empty_audio
   \<and> fst (generateStudioAudio_dbdoc stub_world_mute ''The sun rises.'' defaultVal)
       = Inr empty_audio
   \<and> base64Audio \<lparr>resp_text = None, resp_parts = [Some ''%%%'']\<rparr> = Some ''%%%''
   \<and> atob stub_world_garbled ''%%%'' = Inl (new_Error ''InvalidCharacterError'')
   \<and> audio_try stub_world_garbled (Inr \<lparr>resp_text = None, resp_parts = [Some ''%%%'']\<rparr>)
       = Inl (new_Error ''InvalidCharacterError'')
   \<and> fst (generateStudioAudio stub_world_garbled ''The sun rises.'' defaultVal) = Inr empty_audio
   \<and> atob stub_world_odd ''AQID'' = Inr [1, 2, 3]
   \<and> apply_volume stub_world_odd (volume (defaultVal\<lparr>volume := Fin 2\<rparr>)) [1, 2, 3]
       = Inl rangeError
   \<and> audio_try_part000 stub_world_odd (defaultVal\<lparr>volume := Fin 2\<rparr>)
        (Inr \<lparr>resp_text = None, resp_parts = [Some ''AQID'']\<rparr>) = Inl rangeError
   \<and> fst (generateStudioAudio_part000 stub_world_odd ''The sun rises.''
        (defaultVal\<lparr>volume := Fin 2\<rparr>)) = Inr empty_audio"
proof -
  let ?s = "''The sun rises.''"
  let ?loud = "defaultVal\<lparr>volume := Fin 2\<rparr>"
  have m: "audio_try stub_world_mute
     (fst (retry (audio_op stub_world_mute (audioRequest ?s defaultVal)) 1 5000))
     = Inl (new_Error ''500 Internal'')"
    "audio_try_part000 stub_world_mute defaultVal
     (fst (retry_part000 (audio_op stub_world_mute (audioRequest_part000 ?s defaultVal)) 3 2000))
     = Inl (new_Error ''500 Internal'')"
    "audio_try stub_world_mute
     (fst (retry_part000 (audio_op stub_world_mute (audioRequest_dbdoc ?s defaultVal)) 3 2000))
     = Inl (new_Error ''500 Internal'')"
    by code_simp+
  have g: "audio_try stub_world_garbled
     (fst (retry (audio_op stub_world_garbled (audioRequest ?s defaultVal)) 1 5000))
     = Inl (new_Error ''InvalidCharacterError'')"
    "base64Audio \<lparr>resp_text = None, resp_parts = [Some ''%%%'']\<rparr> = Some ''%%%''"
    "atob stub_world_garbled ''%%%'' = Inl (new_Error ''InvalidCharacterError'')"
    by code_simp+
  have o: "audio_try_part000 stub_world_odd ?loud
     (fst (retry_part000 (audio_op stub_world_odd (audioRequest_part000 ?s ?loud)) 3 2000))
     = Inl rangeError"
    "base64Audio \<lparr>resp_text = None, resp_parts = [Some ''AQID'']\<rparr> = Some ''AQID''"
    "atob stub_world_odd ''AQID'' = Inr [1, 2, 3]"
    "apply_volume stub_world_odd (volume ?loud) [1, 2, 3] = Inl rangeError"
    by code_simp+
  show ?thesis
    using audio_stage_never_throws [of stub_world_mute ?s defaultVal
        "new_Error ''500 Internal''" "\<lparr>resp_text = None, resp_parts = [Some ''%%%'']\<rparr>"
        "''%%%''" "[]"]
      audio_stage_never_throws [of stub_world_garbled ?s defaultVal
        "new_Error ''InvalidCharacterError''" "\<lparr>resp_text = None, resp_parts = [Some ''%%%'']\<rparr>"
        "''%%%''" "[]"]
      audio_stage_never_throws [of stub_world_odd ?s ?loud
        rangeError "\<lparr>resp_text = None, resp_parts = [Some ''AQID'']\<rparr>"
        "''AQID''" "[1, 2, 3]"]
      m g o
    by simp
qed

text \<open>So once the text stage has produced a content package, the run returns a result.\<close>

lemma run_completes:
  assumes "\<not> falsy_str k" "k \<noteq> Some ''undefined''"
    and "fst (retry (text_op w (text_contents p c)) 3 3000) = Inr response"
    and "parse_response w response = Inr d"
  shows "\<exists>r. fst (generateContent w k p c cb) = Inr r"
proof -
  obtain a where a: "fst (generateStudioAudio w (or_else (script d) []) c) = Inr a"
    using audio_returns(1) by blast
  show ?thesis using assms by (simp add: generateContent_def Let_def a)
qed

subsection \<open>The quota gate\<close>

lemma image_calls_append [simp]: "image_calls sl (a @ b) = image_calls sl a + image_calls sl b"
  by (induction sl a rule: image_calls.induct) simp_all

lemma image_calls_Net:
  "image_calls sl (Net st a # tr) =
     (if st = ImageGeneration sl \<and> (case a of Attempt i \<Rightarrow> True | _ \<Rightarrow> False)
      then Suc (image_calls sl tr) else image_calls sl tr)"
  by (cases st; cases a) auto

lemma image_calls_other_stage [simp]:
  "st \<noteq> ImageGeneration sl \<Longrightarrow> image_calls sl (map (Net st) evs) = 0"
  by (induction evs) (simp_all add: image_calls_Net)

lemma image_calls_sleep [simp]: "image_calls sl (sleep ms) = 0"
  by (simp add: sleep_def)

lemma image_calls_report [simp]: "image_calls sl (report cb p) = 0"
  by (simp add: report_def)

lemma image_calls_adapter [simp]:
  "sl \<noteq> sl' \<Longrightarrow> image_calls sl (snd (generateStudioImage w sl' p a)) = 0"
  "sl \<noteq> sl' \<Longrightarrow> image_calls sl (snd (generateStudioImage_part000 w sl' p a)) = 0"
  "sl \<noteq> sl' \<Longrightarrow> image_calls sl (snd (generateStudioImage_dbdoc w sl' p a)) = 0"
  by (simp_all add: generateStudioImage_def generateStudioImage_part000_def
      generateStudioImage_dbdoc_def Let_def)

lemma image_calls_audio [simp]:
  "image_calls sl (snd (generateStudioAudio w s c)) = 0"
  "image_calls sl (snd (generateStudioAudio_part000 w s c)) = 0"
  "image_calls sl (snd (generateStudioAudio_dbdoc w s c)) = 0"
  by (simp_all add: generateStudioAudio_def generateStudioAudio_part000_def
      generateStudioAudio_dbdoc_def Let_def)


text \<open>A turn with the flag set: no request, a placeholder, the flag stays.\<close>

lemma image_turn_part000_exhausted:
  assumes "isQuotaExhausted st"
  shows "isQuotaExhausted (image_turn_part000 w c d cb st i)"
    and "image_calls sl (trace (image_turn_part000 w c d cb st i)) = image_calls sl (trace st)"
    and "\<exists>ref. images (image_turn_part000 w c d cb st i) = images st @ [ref] \<and> is_placeholder ref"
  using assms by (simp_all add: image_turn_part000_def Let_def is_placeholder_def)

text \<open>Any turn: one more image, and requests for its own slot only.\<close>

lemma image_turn_part000_any:
  shows "length (images (image_turn_part000 w c d cb st i)) = Suc (length (images st))"
    and "sl \<noteq> ImageNo i \<Longrightarrow>
         image_calls sl (trace (image_turn_part000 w c d cb st i)) = image_calls sl (trace st)"
    and "isQuotaExhausted st \<Longrightarrow> isQuotaExhausted (image_turn_part000 w c d cb st i)"
  by (auto simp: image_turn_part000_def Let_def split: sum.splits)

text \<open>A turn whose request fails with a 429: a placeholder, and the flag is set.\<close>

lemma image_turn_part000_429:
  assumes "fst (generateStudioImage_part000 w (ImageNo i) (prompts_of d ! i) (aspectRatio c)) = Inl err"
    and "message_includes_429 err"
  shows "isQuotaExhausted (image_turn_part000 w c d cb st i)"
    and "\<exists>ref. images (image_turn_part000 w c d cb st i) = images st @ [ref] \<and> is_placeholder ref"
  using assms by (simp_all add: image_turn_part000_def Let_def is_placeholder_def)


lemma thumbnail_part000_exhausted:
  "is_placeholder (fst (thumbnail_stage_part000 w c d True))"
  "snd (thumbnail_stage_part000 w c d True) = []"
  by (simp_all add: thumbnail_stage_part000_def is_placeholder_def)

lemma quota_gate_part000:
  assumes textok: "fst (retry_part000 (text_op w (text_contents_part000 p c)) 3 2000) = Inr response"
    and parse: "parse_response w response = Inr d"
    and four: "length (prompts_of d) = 4"
    and fails: "fst (generateStudioImage_part000 w (ImageNo 1) (prompts_of d ! 1) (aspectRatio c)) = Inl err"
    and limit: "message_includes_429 err"
  shows "\<exists>r. fst (generateContent_part000 w p c cb) = Inr r
           \<and> length (result_images r) = 4
           \<and> is_placeholder (result_images r ! 1)
           \<and> is_placeholder (result_images r ! 2)
           \<and> is_placeholder (result_images r ! 3)
           \<and> is_placeholder (thumbnail r)
           \<and> image_calls (ImageNo 2) (snd (generateContent_part000 w p c cb)) = 0
           \<and> image_calls (ImageNo 3) (snd (generateContent_part000 w p c cb)) = 0
           \<and> image_calls Thumbnail (snd (generateContent_part000 w p c cb)) = 0"
proof -
  define tr0 where "tr0 = report cb 5
      @ map (Net TextGeneration) (snd (retry_part000 (text_op w (text_contents_part000 p c)) 3 2000))
      @ report cb 20"
  define st0 :: loop_state_part000
    where "st0 = \<lparr>images = [], isQuotaExhausted = False, trace = tr0, currentProgress = 20\<rparr>"
  define st1 where "st1 = image_turn_part000 w c d cb st0 0"
  define st2 where "st2 = image_turn_part000 w c d cb st1 1"
  define st3 where "st3 = image_turn_part000 w c d cb st2 2"
  define st4 where "st4 = image_turn_part000 w c d cb st3 3"
  have loop: "foldl (image_turn_part000 w c d cb) st0 [0..<length (prompts_of d)] = st4"
    by (simp add: four upt4 st1_def st2_def st3_def st4_def)
  have c0: "image_calls sl tr0 = 0" for sl
    by (simp add: tr0_def)
  have l1: "length (images st1) = 1"
    by (simp add: st1_def image_turn_part000_any(1) st0_def)
  have q2: "isQuotaExhausted st2"
    unfolding st2_def by (rule image_turn_part000_429(1) [OF fails limit])
  obtain r1 where i2: "images st2 = images st1 @ [r1]" and p1: "is_placeholder r1"
    unfolding st2_def using image_turn_part000_429(2) [OF fails limit] by blast
  have q3: "isQuotaExhausted st3"
    unfolding st3_def by (rule image_turn_part000_exhausted(1) [OF q2])
  obtain r2 where i3: "images st3 = images st2 @ [r2]" and p2: "is_placeholder r2"
    unfolding st3_def using image_turn_part000_exhausted(3) [OF q2] by blast
  have q4: "isQuotaExhausted st4"
    unfolding st4_def by (rule image_turn_part000_exhausted(1) [OF q3])
  obtain r3 where i4: "images st4 = images st3 @ [r3]" and p3: "is_placeholder r3"
    unfolding st4_def using image_turn_part000_exhausted(3) [OF q3] by blast
  obtain x where imgs: "images st4 = [x, r1, r2, r3]"
    using l1 i2 i3 i4 by (cases "images st1") auto
  have calls: "image_calls sl (trace st4) = 0" if "sl \<noteq> ImageNo 0" "sl \<noteq> ImageNo 1" for sl
  proof -
    have "image_calls sl (trace st1) = 0"
      unfolding st1_def using that by (simp add: image_turn_part000_any(2) st0_def c0)
    then have "image_calls sl (trace st2) = 0"
      unfolding st2_def using that by (simp add: image_turn_part000_any(2))
    then have "image_calls sl (trace st3) = 0"
      unfolding st3_def by (simp add: image_turn_part000_exhausted(2) [OF q2])
    then show ?thesis
      unfolding st4_def by (simp add: image_turn_part000_exhausted(2) [OF q3])
  qed
  obtain a where a: "fst (generateStudioAudio_part000 w (or_else (script d) []) c) = Inr a"
    using audio_returns(2) by blast
  have run: "generateContent_part000 w p c cb =
      (Inr (assemble c d (images st4) (fst (thumbnail_stage_part000 w c d True)) a),
       trace st4 @ snd (thumbnail_stage_part000 w c d True) @ report cb 90
         @ snd (generateStudioAudio_part000 w (or_else (script d) []) c) @ report cb 100)"
    using q4
    by (simp add: generateContent_part000_def Let_def textok parse a
        loop [unfolded st0_def tr0_def])
  show ?thesis
    unfolding run
    using p1 p2 p3 calls [of "ImageNo 2"] calls [of "ImageNo 3"] calls [of Thumbnail]
    by (simp add: assemble_def imgs thumbnail_part000_exhausted)
qed

text \<open>
  C2. In \<^verbatim>\<open>geminiService.ts\<close>, and in the second document of \<^verbatim>\<open>dbService.ts\<close>, the thumbnail
  is requested whatever the flag says. In the run below the request for the second image fails
  with a 429 (three attempts); the third and fourth images are placeholders without a request,
  but one thumbnail request is made and the thumbnail is the generated image, not a
  placeholder. In the same world \<^verbatim>\<open>part_000\<close>, which tests the flag before the thumbnail
  request, makes none and returns a placeholder (in general: lemma \<open>quota_gate_part000\<close>).
\<close>

theorem thumbnail_requested_after_quota_exhausted:
  "fst (generateStudioImage stub_world_429 (ImageNo 1) ''p2'' VERTICAL)
     = Inl (new_Error ''429 Too Many Requests'')
   \<and> map_sum id result_images
        (fst (generateContent stub_world_429 (Some ''key'') ''mountain sunrise'' defaultVal True))
     = Inr [''data:image/png;base64,IMG'', ''https://picsum.photos/seed/err1/720/1280'',
            ''https://picsum.photos/seed/2/720/1280'', ''https://picsum.photos/seed/3/720/1280'']
   \<and> map_sum id thumbnail
        (fst (generateContent stub_world_429 (Some ''key'') ''mountain sunrise'' defaultVal True))
     = Inr ''data:image/png;base64,IMG''
   \<and> image_calls Thumbnail
        (snd (generateContent stub_world_429 (Some ''key'') ''mountain sunrise'' defaultVal True)) = 1
   \<and> image_calls (ImageNo 2)
        (snd (generateContent stub_world_429 (Some ''key'') ''mountain sunrise'' defaultVal True)) = 0
   \<and> image_calls (ImageNo 3)
        (snd (generateContent stub_world_429 (Some ''key'') ''mountain sunrise'' defaultVal True)) = 0
   \<and> map_sum id thumbnail
        (fst (generateContent_dbdoc stub_world_429 ''mountain sunrise'' defaultVal True))
     = Inr ''data:image/png;base64,IMG''
   \<and> image_calls Thumbnail
        (snd (generateContent_dbdoc stub_world_429 ''mountain sunrise'' defaultVal True)) = 1
   \<and> map_sum id thumbnail
        (fst (generateContent_part000 stub_world_429 ''mountain sunrise'' defaultVal True))
     = Inr ''https://picsum.photos/seed/thumb_0.5/720/1280''
   \<and> image_calls Thumbnail
        (snd (generateContent_part000 stub_world_429 ''mountain sunrise'' defaultVal True)) = 0"
  by code_simp

end
